theory Spec2Isabelle
  imports Complex_Main
begin

section \<open>Python values and exceptions\<close>

text \<open>
  The AI layer of the backend (\<^verbatim>\<open>app/services/ai\<close>) is embedded function by function.
  Python \<^verbatim>\<open>str\<close> values are modelled as HOL strings, one \<open>char\<close> per code point, so the
  model covers texts whose code points are below 256. Python floats are modelled as real
  numbers (no rounding), extended by the two infinities and NaN where the JSON decoder and
  \<^verbatim>\<open>float()\<close> can produce them.
\<close>

datatype pyfloat = Fin real | PosInf | NegInf | NaN

datatype pyval =
    PNone
  | PBool bool
  | PInt int
  | PFloat pyfloat
  | PStr string
  | PList "pyval list"
  | PDict "(string \<times> pyval) list"

text \<open>
  The exceptions that the parsing code can meet. \<open>JSONDecodeError\<close> and pydantic's
  \<open>ValidationError\<close> are subclasses of \<open>ValueError\<close>; all of them are subclasses of
  \<open>Exception\<close>.
\<close>

datatype pyerror =
    JSONDecodeError
  | ValidationError
  | ValueError
  | KeyError
  | AttributeError
  | TypeError
  | OverflowError
  | IndexError

fun is_ValueError :: "pyerror \<Rightarrow> bool" where
  "is_ValueError JSONDecodeError = True"
| "is_ValueError ValidationError = True"
| "is_ValueError ValueError = True"
| "is_ValueError _ = False"

definition bind_err :: "'e + 'a \<Rightarrow> ('a \<Rightarrow> 'e + 'b) \<Rightarrow> 'e + 'b" where
  "bind_err m f = (case m of Inl e \<Rightarrow> Inl e | Inr x \<Rightarrow> f x)"

subsection \<open>Dictionaries\<close>

text \<open>
  A \<^verbatim>\<open>dict\<close> is an association list with distinct keys in insertion order. Storing under
  an existing key replaces the value in place, as Python does.
\<close>

fun dict_set :: "(string \<times> pyval) list \<Rightarrow> string \<Rightarrow> pyval \<Rightarrow> (string \<times> pyval) list" where
  "dict_set [] k v = [(k, v)]"
| "dict_set ((k', v') # kvs) k v =
     (if k' = k then (k, v) # kvs else (k', v') # dict_set kvs k v)"

definition dict_get :: "(string \<times> pyval) list \<Rightarrow> string \<Rightarrow> pyval \<Rightarrow> pyval" where
  "dict_get d k dflt = (case map_of d k of None \<Rightarrow> dflt | Some v \<Rightarrow> v)"

text \<open>\<^verbatim>\<open>obj.get(key, default)\<close>: only a dict has the method among the values JSON yields.\<close>

fun py_get :: "pyval \<Rightarrow> string \<Rightarrow> pyval \<Rightarrow> pyerror + pyval" where
  "py_get (PDict d) k dflt = Inr (dict_get d k dflt)"
| "py_get _ k dflt = Inl AttributeError"

text \<open>Truth value of a Python object, as an \<^verbatim>\<open>if\<close> tests it.\<close>

fun truthy :: "pyval \<Rightarrow> bool" where
  "truthy PNone = False"
| "truthy (PBool b) = b"
| "truthy (PInt i) = (i \<noteq> 0)"
| "truthy (PFloat (Fin x)) = (x \<noteq> 0)"
| "truthy (PFloat _) = True"
| "truthy (PStr s) = (s \<noteq> [])"
| "truthy (PList xs) = (xs \<noteq> [])"
| "truthy (PDict d) = (d \<noteq> [])"

section \<open>Characters and strings\<close>

definition is_digit :: "char \<Rightarrow> bool" where
  "is_digit c = (let n = (of_char c :: nat) in 48 \<le> n \<and> n \<le> 57)"

text \<open>
  \<^verbatim>\<open>\s\<close> and \<^verbatim>\<open>str.isspace\<close> below code point 256: tab to carriage return, the four
  separators 28 to 31, space, NEL and the no-break space.
\<close>

definition is_space :: "char \<Rightarrow> bool" where
  "is_space c = (let n = (of_char c :: nat) in
     (9 \<le> n \<and> n \<le> 13) \<or> (28 \<le> n \<and> n \<le> 32) \<or> n = 133 \<or> n = 160)"

text \<open>\<^verbatim>\<open>str.lower\<close> below code point 256.\<close>

definition py_lower_char :: "char \<Rightarrow> char" where
  "py_lower_char c = (let n = (of_char c :: nat) in
     if (65 \<le> n \<and> n \<le> 90) \<or> (192 \<le> n \<and> n \<le> 222 \<and> n \<noteq> 215)
     then char_of (n + 32) else c)"

definition py_lower :: "string \<Rightarrow> string" where
  "py_lower s = map py_lower_char s"

text \<open>\<^verbatim>\<open>needle in haystack\<close> on strings.\<close>

fun py_in :: "string \<Rightarrow> string \<Rightarrow> bool" where
  "py_in needle [] = (needle = [])"
| "py_in needle (c # cs) = (take (length needle) (c # cs) = needle \<or> py_in needle cs)"

fun lstrip :: "string \<Rightarrow> string" where
  "lstrip s = dropWhile is_space s"

definition strip :: "string \<Rightarrow> string" where
  "strip s = rev (lstrip (rev (lstrip s)))"

text \<open>\<^verbatim>\<open>re.split(r'[,;]', s)\<close>: the pieces between the separators, empty ones included.\<close>

fun split_on :: "(char \<Rightarrow> bool) \<Rightarrow> string \<Rightarrow> string list" where
  "split_on p [] = [[]]"
| "split_on p (c # cs) =
     (if p c then [] # split_on p cs
      else (case split_on p cs of [] \<Rightarrow> [[c]] | w # ws \<Rightarrow> (c # w) # ws))"

section \<open>Regular expressions\<close>

text \<open>
  The patterns of the source are terms of \<open>rx\<close>. A match is computed the way a
  backtracking engine finds it: \<open>rx_match\<close> lists every way the pattern can match a
  prefix of the input, in the engine's order of preference (greedy repetitions try the
  longest first, an optional part is tried before it is skipped), and \<open>rx_search\<close>
  takes the first of them at the leftmost position that has one. Repetition is only
  needed over character classes. The flag says whether literals ignore case.
\<close>

datatype rx =
    Lit char
  | Opt rx
  | Star "char \<Rightarrow> bool"
  | Plus "char \<Rightarrow> bool"
  | Seq rx rx
  | Grp rx

definition lit_eq :: "bool \<Rightarrow> char \<Rightarrow> char \<Rightarrow> bool" where
  "lit_eq ic c x = (if ic then py_lower_char c = py_lower_char x else c = x)"

definition later_group :: "string option \<Rightarrow> string option \<Rightarrow> string option" where
  "later_group g1 g2 = (case g2 of None \<Rightarrow> g1 | Some t \<Rightarrow> Some t)"

fun rx_match :: "bool \<Rightarrow> rx \<Rightarrow> string \<Rightarrow> (string option \<times> string) list" where
  "rx_match ic (Lit c) s =
     (case s of [] \<Rightarrow> [] | x # xs \<Rightarrow> if lit_eq ic c x then [(None, xs)] else [])"
| "rx_match ic (Opt r) s = rx_match ic r s @ [(None, s)]"
| "rx_match ic (Star p) s =
     map (\<lambda>k. (None, drop k s)) (rev [0 ..< Suc (length (takeWhile p s))])"
| "rx_match ic (Plus p) s =
     map (\<lambda>k. (None, drop k s)) (rev [1 ..< Suc (length (takeWhile p s))])"
| "rx_match ic (Seq a b) s =
     concat (map (\<lambda>(g1, rest).
               map (\<lambda>(g2, rest'). (later_group g1 g2, rest')) (rx_match ic b rest))
             (rx_match ic a s))"
| "rx_match ic (Grp r) s =
     map (\<lambda>(g, rest). (Some (take (length s - length rest) s), rest)) (rx_match ic r s)"

text \<open>
  \<^verbatim>\<open>re.search\<close>: the result is the matched text (\<^verbatim>\<open>m.group()\<close>) and the text of group 1.
\<close>

fun rx_search :: "bool \<Rightarrow> rx \<Rightarrow> string \<Rightarrow> (string \<times> string option) option" where
  "rx_search ic r [] =
     (case rx_match ic r [] of
        [] \<Rightarrow> None
      | (g, rest) # _ \<Rightarrow> Some ([], g))"
| "rx_search ic r (c # cs) =
     (case rx_match ic r (c # cs) of
        [] \<Rightarrow> rx_search ic r cs
      | (g, rest) # _ \<Rightarrow> Some (take (length (c # cs) - length rest) (c # cs), g))"

fun rx_lits :: "string \<Rightarrow> rx \<Rightarrow> rx" where
  "rx_lits [] r = r"
| "rx_lits (c # cs) r = Seq (Lit c) (rx_lits cs r)"

text \<open>The part \<^verbatim>\<open>:?\s*(\d+\.?\d*)\<close> shared by the nutrient patterns.\<close>

definition rx_number :: rx where
  "rx_number =
     Seq (Opt (Lit CHR '':''))
       (Seq (Star is_space)
          (Grp (Seq (Plus is_digit) (Seq (Opt (Lit CHR ''.'')) (Star is_digit)))))"

text \<open>\<^verbatim>\<open>calories?:?\s*(\d+\.?\d*)\<close>\<close>
definition rx_calories :: rx where
  "rx_calories = rx_lits ''calorie'' (Seq (Opt (Lit CHR ''s'')) rx_number)"

text \<open>\<^verbatim>\<open>protein:?\s*(\d+\.?\d*)g?\<close>\<close>
definition rx_protein :: rx where
  "rx_protein = rx_lits ''protein'' (Seq rx_number (Opt (Lit CHR ''g'')))"

text \<open>\<^verbatim>\<open>carb(?:ohydrate)?s?:?\s*(\d+\.?\d*)g?\<close>\<close>
definition rx_carbs :: rx where
  "rx_carbs = rx_lits ''carb''
     (Seq (Opt (rx_lits ''ohydrat'' (Lit CHR ''e'')))
        (Seq (Opt (Lit CHR ''s'')) (Seq rx_number (Opt (Lit CHR ''g'')))))"

text \<open>\<^verbatim>\<open>fat:?\s*(\d+\.?\d*)g?\<close>\<close>
definition rx_fat :: rx where
  "rx_fat = rx_lits ''fat'' (Seq rx_number (Opt (Lit CHR ''g'')))"

text \<open>\<^verbatim>\<open>fiber:?\s*(\d+\.?\d*)g?\<close>\<close>
definition rx_fiber :: rx where
  "rx_fiber = rx_lits ''fiber'' (Seq rx_number (Opt (Lit CHR ''g'')))"

text \<open>\<^verbatim>\<open>ingredients?:?\s*([^\n]+)\<close>\<close>
definition rx_ingredients :: rx where
  "rx_ingredients = rx_lits ''ingredient''
     (Seq (Opt (Lit CHR ''s''))
        (Seq (Opt (Lit CHR '':''))
           (Seq (Star is_space) (Grp (Plus (\<lambda>c. c \<noteq> CHR 0x0A))))))"

text \<open>\<^verbatim>\<open>\{.*\}\<close> with \<^verbatim>\<open>re.DOTALL\<close>\<close>
definition rx_braces :: rx where
  "rx_braces = Seq (Lit CHR ''{'') (Seq (Star (\<lambda>_. True)) (Lit CHR ''}''))"

section \<open>Numbers from text\<close>

definition digit_val :: "char \<Rightarrow> nat" where
  "digit_val c = of_char c - 48"

definition dec_val :: "string \<Rightarrow> nat" where
  "dec_val ds = foldl (\<lambda>a c. 10 * a + digit_val c) 0 ds"

text \<open>
  A decimal value becoming a float: a magnitude that would round beyond the largest
  double becomes an infinity. The bound, written out, is \<open>2 ^ 1024 - 2 ^ 970\<close>, half a
  unit in the last place above the largest double. Rounding to the nearest double is not
  modelled.
\<close>

definition float_limit :: real where
  "float_limit = 179769313486231580793728971405303415079934132710037826936173778980444968292764750946649017977587207096330286416692887910946555547851940402630657488671505820681908902000708383676273854845817711531764475730270069855571366959622842914819860834936475292719074168444365510704342711559699508093042880177904174497792"

definition to_float :: "real \<Rightarrow> pyfloat" where
  "to_float x = (if float_limit \<le> x then PosInf else if x \<le> - float_limit then NegInf else Fin x)"

text \<open>The value of mantissa digits \<open>ds\<close> scaled by a power of ten.\<close>

definition scale10 :: "nat \<Rightarrow> int \<Rightarrow> real" where
  "scale10 m e = (if 0 \<le> e then real m * 10 ^ nat e else real m / 10 ^ nat (- e))"

subsection \<open>The builtin \<^verbatim>\<open>float\<close> on a string\<close>

text \<open>
  \<^verbatim>\<open>float(s)\<close> strips white space, then reads an optional sign and either
  \<^verbatim>\<open>inf\<close>, \<^verbatim>\<open>infinity\<close>, \<^verbatim>\<open>nan\<close> in any case or a decimal literal: digits with single
  underscores between them, an optional point, an optional exponent. \<open>None\<close> stands for the
  \<^verbatim>\<open>ValueError\<close> it raises on anything else.
\<close>

fun digit_tail :: "string \<Rightarrow> string \<times> string" where
  "digit_tail [] = ([], [])"
| "digit_tail (c # cs) =
     (if is_digit c then (case digit_tail cs of (ds, r) \<Rightarrow> (c # ds, r))
      else if c = CHR ''_'' then
        (case cs of
           [] \<Rightarrow> ([], c # cs)
         | d # cs' \<Rightarrow>
             if is_digit d then (case digit_tail cs' of (ds, r) \<Rightarrow> (d # ds, r))
             else ([], c # cs))
      else ([], c # cs))"

definition digitpart :: "string \<Rightarrow> (string \<times> string) option" where
  "digitpart s =
     (case s of
        [] \<Rightarrow> None
      | c # cs \<Rightarrow>
          if is_digit c then (case digit_tail cs of (ds, r) \<Rightarrow> Some (c # ds, r)) else None)"

definition split_sign :: "string \<Rightarrow> bool \<times> string" where
  "split_sign s =
     (case s of
        [] \<Rightarrow> (False, s)
      | c # cs \<Rightarrow>
          if c = CHR ''-'' then (True, cs) else if c = CHR ''+'' then (False, cs) else (False, s))"

definition float_exponent :: "string \<Rightarrow> int option" where
  "float_exponent s =
     (case s of
        [] \<Rightarrow> Some 0
      | c # cs \<Rightarrow>
          if c = CHR ''e'' \<or> c = CHR ''E'' then
            (case split_sign cs of (neg, r) \<Rightarrow>
               (case digitpart r of
                  None \<Rightarrow> None
                | Some (ds, r') \<Rightarrow>
                    if r' = [] then Some (if neg then - int (dec_val ds) else int (dec_val ds))
                    else None))
          else None)"

definition float_magnitude :: "string \<Rightarrow> real option" where
  "float_magnitude s =
     (case digitpart s of
        Some (ip, r) \<Rightarrow>
          (case r of
             [] \<Rightarrow> Some (real (dec_val ip))
           | c # cs \<Rightarrow>
               if c = CHR ''.'' then
                 (case digitpart cs of
                    Some (fp, r') \<Rightarrow>
                      map_option (\<lambda>e. scale10 (dec_val (ip @ fp)) (e - int (length fp)))
                        (float_exponent r')
                  | None \<Rightarrow> map_option (\<lambda>e. scale10 (dec_val ip) e) (float_exponent cs))
               else map_option (\<lambda>e. scale10 (dec_val ip) e) (float_exponent r))
      | None \<Rightarrow>
          (case s of
             [] \<Rightarrow> None
           | c # cs \<Rightarrow>
               if c = CHR ''.'' then
                 (case digitpart cs of
                    Some (fp, r') \<Rightarrow>
                      map_option (\<lambda>e. scale10 (dec_val fp) (e - int (length fp)))
                        (float_exponent r')
                  | None \<Rightarrow> None)
               else None))"

definition float_of_str :: "string \<Rightarrow> pyfloat option" where
  "float_of_str s =
     (case split_sign (strip s) of (neg, body) \<Rightarrow>
        if py_lower body = ''inf'' \<or> py_lower body = ''infinity''
        then Some (if neg then NegInf else PosInf)
        else if py_lower body = ''nan'' then Some NaN
        else map_option (\<lambda>m. to_float (if neg then - m else m)) (float_magnitude body))"

text \<open>
  \<^verbatim>\<open>float(x)\<close> on the values JSON yields: a number converts (an int beyond the double
  range raises \<^verbatim>\<open>OverflowError\<close>), a string is parsed, anything else is a \<^verbatim>\<open>TypeError\<close>.
\<close>

fun py_float :: "pyval \<Rightarrow> pyerror + pyfloat" where
  "py_float (PFloat x) = Inr x"
| "py_float (PInt i) =
     (if float_limit \<le> \<bar>real_of_int i\<bar> then Inl OverflowError else Inr (Fin (real_of_int i)))"
| "py_float (PBool b) = Inr (Fin (if b then 1 else 0))"
| "py_float (PStr s) = (case float_of_str s of None \<Rightarrow> Inl ValueError | Some x \<Rightarrow> Inr x)"
| "py_float _ = Inl TypeError"

section \<open>The JSON decoder\<close>

text \<open>
  \<^verbatim>\<open>json.loads\<close> of the Python standard library, on which the parsers of the source
  rest. The text is cut into tokens and the tokens are assembled with a stack of the
  containers that are still open. Every malformed text raises \<^verbatim>\<open>JSONDecodeError\<close>.
  As the decoder of the standard library does, this one accepts \<^verbatim>\<open>NaN\<close>, \<^verbatim>\<open>Infinity\<close>
  and \<^verbatim>\<open>-Infinity\<close> and keeps the last value of a repeated key. Two things are outside
  the model: an escape \<^verbatim>\<open>\uXXXX\<close> of a code point from 256 on, which a HOL string cannot
  hold and which is rejected here, and the \<^verbatim>\<open>RecursionError\<close> of a text nested deeper
  than the interpreter's stack allows.
\<close>

datatype jtoken = TLBrace | TRBrace | TLBrack | TRBrack | TComma | TColon | TVal pyval

definition hex_val :: "char \<Rightarrow> nat option" where
  "hex_val c = (let n = (of_char c :: nat) in
     if 48 \<le> n \<and> n \<le> 57 then Some (n - 48)
     else if 65 \<le> n \<and> n \<le> 70 then Some (n - 55)
     else if 97 \<le> n \<and> n \<le> 102 then Some (n - 87)
     else None)"

fun hex4 :: "string \<Rightarrow> nat option" where
  "hex4 [a, b, c, d] =
     (case (hex_val a, hex_val b, hex_val c, hex_val d) of
        (Some x, Some y, Some z, Some w) \<Rightarrow> Some (((x * 16 + y) * 16 + z) * 16 + w)
      | _ \<Rightarrow> None)"
| "hex4 _ = None"

definition unescape :: "char \<Rightarrow> char option" where
  "unescape e =
     (if e = CHR 0x22 \<or> e = CHR 0x5C \<or> e = CHR ''/'' then Some e
      else if e = CHR ''b'' then Some (CHR 0x08)
      else if e = CHR ''f'' then Some (CHR 0x0C)
      else if e = CHR ''n'' then Some (CHR 0x0A)
      else if e = CHR ''r'' then Some (CHR 0x0D)
      else if e = CHR ''t'' then Some (CHR 0x09)
      else None)"

text \<open>
  The text after an opening quote: the decoded string and the number of characters read,
  closing quote included. A raw control character is an error.
\<close>

fun scan_string :: "string \<Rightarrow> (string \<times> nat) option" where
  "scan_string [] = None"
| "scan_string (c # cs) =
     (if c = CHR 0x22 then Some ([], 1)
      else if c = CHR 0x5C then
        (case cs of
           [] \<Rightarrow> None
         | e # cs' \<Rightarrow>
             if e = CHR ''u'' then
               (case hex4 (take 4 cs') of
                  None \<Rightarrow> None
                | Some n \<Rightarrow>
                    if n < 256
                    then map_option (\<lambda>(t, k). (char_of n # t, k + 6)) (scan_string (drop 4 cs'))
                    else None)
             else
               (case unescape e of
                  None \<Rightarrow> None
                | Some x \<Rightarrow> map_option (\<lambda>(t, k). (x # t, k + 2)) (scan_string cs')))
      else if (of_char c :: nat) < 32 then None
      else map_option (\<lambda>(t, k). (c # t, k + 1)) (scan_string cs))"

text \<open>
  A number at the head of the text, by the decoder's pattern
  \<^verbatim>\<open>(-?(?:0|[1-9]\d*))(\.\d+)?([eE][-+]?\d+)?\<close>: the value and the number of characters
  read. Without fraction and exponent it is an \<^verbatim>\<open>int\<close>, otherwise a \<^verbatim>\<open>float\<close>.
\<close>

definition scan_fraction :: "string \<Rightarrow> string" where
  "scan_fraction s =
     (case s of
        [] \<Rightarrow> []
      | c # cs \<Rightarrow> if c = CHR ''.'' then takeWhile is_digit cs else [])"

definition scan_exponent :: "string \<Rightarrow> (int \<times> nat) option" where
  "scan_exponent s =
     (case s of
        [] \<Rightarrow> None
      | c # cs \<Rightarrow>
          if c = CHR ''e'' \<or> c = CHR ''E'' then
            (case cs of
               [] \<Rightarrow> None
             | d # ds \<Rightarrow>
                 if d = CHR ''-'' then
                   (if takeWhile is_digit ds = [] then None
                    else Some (- int (dec_val (takeWhile is_digit ds)),
                               2 + length (takeWhile is_digit ds)))
                 else if d = CHR ''+'' then
                   (if takeWhile is_digit ds = [] then None
                    else Some (int (dec_val (takeWhile is_digit ds)),
                               2 + length (takeWhile is_digit ds)))
                 else
                   (if takeWhile is_digit cs = [] then None
                    else Some (int (dec_val (takeWhile is_digit cs)),
                               1 + length (takeWhile is_digit cs))))
          else None)"

definition scan_unsigned :: "string \<Rightarrow> (bool \<times> nat \<times> int \<times> nat) option" where
  "scan_unsigned s =
     (case s of
        [] \<Rightarrow> None
      | d # r \<Rightarrow>
          if \<not> is_digit d then None
          else
            (let ip = (if d = CHR ''0'' then [d] else d # takeWhile is_digit r);
                 s2 = drop (length ip) s;
                 fp = scan_fraction s2;
                 s3 = (if fp = [] then s2 else drop (Suc (length fp)) s2);
                 nfp = (if fp = [] then 0 else Suc (length fp))
             in case scan_exponent s3 of
                  None \<Rightarrow>
                    Some (fp = [], dec_val (ip @ fp), - int (length fp), length ip + nfp)
                | Some (e, k) \<Rightarrow>
                    Some (False, dec_val (ip @ fp), e - int (length fp), length ip + nfp + k)))"

definition scan_number :: "string \<Rightarrow> (pyval \<times> nat) option" where
  "scan_number s =
     (case s of
        [] \<Rightarrow> None
      | c # cs \<Rightarrow>
          if c = CHR ''-'' then
            (if take 8 cs = ''Infinity'' then Some (PFloat NegInf, 9)
             else
               (case scan_unsigned cs of
                  None \<Rightarrow> None
                | Some (is_int, m, e, k) \<Rightarrow>
                    Some (if is_int then PInt (- int m) else PFloat (to_float (- scale10 m e)),
                          Suc k)))
          else
            (case scan_unsigned s of
               None \<Rightarrow> None
             | Some (is_int, m, e, k) \<Rightarrow>
                 Some (if is_int then PInt (int m) else PFloat (to_float (scale10 m e)), k)))"

definition json_ws :: "char \<Rightarrow> bool" where
  "json_ws c = (c = CHR '' '' \<or> c = CHR 0x09 \<or> c = CHR 0x0A \<or> c = CHR 0x0D)"

definition tok_cons :: "jtoken \<Rightarrow> jtoken list option \<Rightarrow> jtoken list option" where
  "tok_cons t r = map_option (\<lambda>ts. t # ts) r"

fun json_lex :: "string \<Rightarrow> jtoken list option" where
  "json_lex [] = Some []"
| "json_lex (c # cs) =
     (if json_ws c then json_lex cs
      else if c = CHR ''{'' then tok_cons TLBrace (json_lex cs)
      else if c = CHR ''}'' then tok_cons TRBrace (json_lex cs)
      else if c = CHR ''['' then tok_cons TLBrack (json_lex cs)
      else if c = CHR '']'' then tok_cons TRBrack (json_lex cs)
      else if c = CHR '','' then tok_cons TComma (json_lex cs)
      else if c = CHR '':'' then tok_cons TColon (json_lex cs)
      else if c = CHR 0x22 then
        (case scan_string cs of
           None \<Rightarrow> None
         | Some (t, k) \<Rightarrow> tok_cons (TVal (PStr t)) (json_lex (drop k cs)))
      else if c = CHR ''n'' \<and> take 3 cs = ''ull'' then
        tok_cons (TVal PNone) (json_lex (drop 3 cs))
      else if c = CHR ''t'' \<and> take 3 cs = ''rue'' then
        tok_cons (TVal (PBool True)) (json_lex (drop 3 cs))
      else if c = CHR ''f'' \<and> take 4 cs = ''alse'' then
        tok_cons (TVal (PBool False)) (json_lex (drop 4 cs))
      else if c = CHR ''N'' \<and> take 2 cs = ''aN'' then
        tok_cons (TVal (PFloat NaN)) (json_lex (drop 2 cs))
      else if c = CHR ''I'' \<and> take 7 cs = ''nfinity'' then
        tok_cons (TVal (PFloat PosInf)) (json_lex (drop 7 cs))
      else
        (case scan_number (c # cs) of
           None \<Rightarrow> None
         | Some (v, k) \<Rightarrow> tok_cons (TVal v) (json_lex (drop (k - 1) cs))))"

text \<open>
  The containers still open, innermost first: a list with its items so far, or a dict
  with its entries so far and the key that waits for its value.
\<close>

datatype jframe = FList "pyval list" | FDict "(string \<times> pyval) list" "string option"

datatype jmode =
    WantValue
  | WantValueOrClose
  | WantKey
  | WantKeyOrClose
  | WantColon
  | WantCommaOrClose
  | Done pyval

text \<open>A finished value goes into the innermost open container, or is the result.\<close>

fun json_put :: "pyval \<Rightarrow> jframe list \<Rightarrow> (jframe list \<times> jmode) option" where
  "json_put v [] = Some ([], Done v)"
| "json_put v (FList xs # st) = Some (FList (xs @ [v]) # st, WantCommaOrClose)"
| "json_put v (FDict d (Some k) # st) = Some (FDict (dict_set d k v) None # st, WantCommaOrClose)"
| "json_put v (FDict d None # st) = None"

fun json_step :: "jframe list \<times> jmode \<Rightarrow> jtoken \<Rightarrow> (jframe list \<times> jmode) option" where
  "json_step (st, WantValue) (TVal v) = json_put v st"
| "json_step (st, WantValue) TLBrack = Some (FList [] # st, WantValueOrClose)"
| "json_step (st, WantValue) TLBrace = Some (FDict [] None # st, WantKeyOrClose)"
| "json_step (st, WantValueOrClose) (TVal v) = json_put v st"
| "json_step (st, WantValueOrClose) TLBrack = Some (FList [] # st, WantValueOrClose)"
| "json_step (st, WantValueOrClose) TLBrace = Some (FDict [] None # st, WantKeyOrClose)"
| "json_step (FList xs # st, WantValueOrClose) TRBrack = json_put (PList xs) st"
| "json_step (FDict d None # st, WantKey) (TVal (PStr k)) = Some (FDict d (Some k) # st, WantColon)"
| "json_step (FDict d None # st, WantKeyOrClose) (TVal (PStr k)) =
     Some (FDict d (Some k) # st, WantColon)"
| "json_step (FDict d None # st, WantKeyOrClose) TRBrace = json_put (PDict d) st"
| "json_step (st, WantColon) TColon = Some (st, WantValue)"
| "json_step (FList xs # st, WantCommaOrClose) TComma = Some (FList xs # st, WantValue)"
| "json_step (FList xs # st, WantCommaOrClose) TRBrack = json_put (PList xs) st"
| "json_step (FDict d None # st, WantCommaOrClose) TComma = Some (FDict d None # st, WantKey)"
| "json_step (FDict d None # st, WantCommaOrClose) TRBrace = json_put (PDict d) st"
| "json_step _ _ = None"

fun json_run :: "jframe list \<times> jmode \<Rightarrow> jtoken list \<Rightarrow> (jframe list \<times> jmode) option" where
  "json_run s [] = Some s"
| "json_run s (t # ts) = (case json_step s t of None \<Rightarrow> None | Some s' \<Rightarrow> json_run s' ts)"

definition json_loads :: "string \<Rightarrow> pyerror + pyval" where
  "json_loads s =
     (case json_lex s of
        None \<Rightarrow> Inl JSONDecodeError
      | Some ts \<Rightarrow>
          (case json_run ([], WantValue) ts of
             Some ([], Done v) \<Rightarrow> Inr v
           | _ \<Rightarrow> Inl JSONDecodeError))"

section \<open>Nutrition records and the response parser\<close>

text \<open>
  \<^verbatim>\<open>NutritionData\<close> of \<^verbatim>\<open>base.py\<close>. Its confidence field is named \<open>parse_confidence\<close>
  here, since the response envelope has a field \<open>confidence\<close> of its own, and its
  field \<^verbatim>\<open>notes\<close> is \<open>notes_text\<close>.
\<close>

record NutritionData =
  calories :: pyfloat
  protein_g :: pyfloat
  carbs_g :: pyfloat
  fat_g :: pyfloat
  fiber_g :: "pyfloat option"
  sugar_g :: "pyfloat option"
  sodium_mg :: "pyfloat option"
  ingredients :: "string list"
  portions :: "(string \<times> string) list option"
  meal_type :: "string option"
  parse_confidence :: pyfloat
  notes_text :: "string option"

text \<open>
  The checks pydantic (version 2, whose \<^verbatim>\<open>model_dump\<close> the source calls) makes when the
  record is built from decoded JSON: a \<^verbatim>\<open>str\<close> field takes a string only, a list or dict
  of strings takes strings only, \<^verbatim>\<open>Optional\<close> adds \<^verbatim>\<open>None\<close>. A failed check raises
  \<^verbatim>\<open>ValidationError\<close>.
\<close>

fun as_str :: "pyval \<Rightarrow> pyerror + string" where
  "as_str (PStr s) = Inr s"
| "as_str _ = Inl ValidationError"

fun as_opt_str :: "pyval \<Rightarrow> pyerror + string option" where
  "as_opt_str PNone = Inr None"
| "as_opt_str (PStr s) = Inr (Some s)"
| "as_opt_str _ = Inl ValidationError"

fun as_strs :: "pyval list \<Rightarrow> pyerror + string list" where
  "as_strs [] = Inr []"
| "as_strs (v # vs) =
     bind_err (as_str v) (\<lambda>s. bind_err (as_strs vs) (\<lambda>ss. Inr (s # ss)))"

fun as_str_list :: "pyval \<Rightarrow> pyerror + string list" where
  "as_str_list (PList vs) = as_strs vs"
| "as_str_list _ = Inl ValidationError"

fun as_str_items :: "(string \<times> pyval) list \<Rightarrow> pyerror + (string \<times> string) list" where
  "as_str_items [] = Inr []"
| "as_str_items ((k, v) # kvs) =
     bind_err (as_str v) (\<lambda>s. bind_err (as_str_items kvs) (\<lambda>r. Inr ((k, s) # r)))"

fun as_opt_str_dict :: "pyval \<Rightarrow> pyerror + (string \<times> string) list option" where
  "as_opt_str_dict PNone = Inr None"
| "as_opt_str_dict (PDict d) = bind_err (as_str_items d) (\<lambda>r. Inr (Some r))"
| "as_opt_str_dict _ = Inl ValidationError"

subsection \<open>The fallback parser\<close>

text \<open>
  The local function \<^verbatim>\<open>extract_number\<close> of \<^verbatim>\<open>_parse_natural_language\<close>: the number of
  the first match of the pattern, or the default when there is no match or \<^verbatim>\<open>float\<close>
  refuses the text of the group.
\<close>

definition extract_number :: "string \<Rightarrow> rx \<Rightarrow> pyfloat \<Rightarrow> pyfloat" where
  "extract_number text pattern dflt =
     (case rx_search True pattern text of
        None \<Rightarrow> dflt
      | Some (m, g) \<Rightarrow>
          (case g of
             None \<Rightarrow> dflt
           | Some t \<Rightarrow> (case float_of_str t of None \<Rightarrow> dflt | Some x \<Rightarrow> x)))"

text \<open>The comparison \<^verbatim>\<open>x > 0\<close> on a float; it is false for NaN.\<close>

fun float_pos :: "pyfloat \<Rightarrow> bool" where
  "float_pos (Fin x) = (0 < x)"
| "float_pos PosInf = True"
| "float_pos _ = False"

definition is_list_sep :: "char \<Rightarrow> bool" where
  "is_list_sep c = (c = CHR '','' \<or> c = CHR '';'')"

definition parse_natural_language :: "string \<Rightarrow> NutritionData" where
  "parse_natural_language text =
     (let calories = extract_number text rx_calories (Fin 0);
          protein = extract_number text rx_protein (Fin 0);
          carbs = extract_number text rx_carbs (Fin 0);
          fat = extract_number text rx_fat (Fin 0);
          fiber = extract_number text rx_fiber (Fin 0);
          ingredients =
            (case rx_search True rx_ingredients text of
               None \<Rightarrow> []
             | Some (m, g) \<Rightarrow>
                 (case g of
                    None \<Rightarrow> []
                  | Some ingredients_text \<Rightarrow>
                      map strip (filter (\<lambda>i. strip i \<noteq> []) (split_on is_list_sep ingredients_text))))
      in \<lparr> calories = calories,
           protein_g = protein,
           carbs_g = carbs,
           fat_g = fat,
           fiber_g = (if float_pos fiber then Some fiber else None),
           sugar_g = None,
           sodium_mg = None,
           ingredients = ingredients,
           portions = None,
           meal_type = None,
           parse_confidence = Fin 0.6,
           notes_text = Some ''Parsed from natural language response (fallback mode)'' \<rparr>)"

subsection \<open>The JSON path\<close>

text \<open>
  \<^verbatim>\<open>float(d.get(k, 0)) if d.get(k) else None\<close>, as written for the three optional
  nutrients.
\<close>

definition opt_nutrient :: "pyval \<Rightarrow> string \<Rightarrow> pyerror + pyfloat option" where
  "opt_nutrient d k =
     bind_err (py_get d k PNone) (\<lambda>t.
       if truthy t
       then bind_err (py_get d k (PInt 0)) (\<lambda>v. bind_err (py_float v) (\<lambda>x. Inr (Some x)))
       else Inr None)"

definition req_nutrient :: "pyval \<Rightarrow> string \<Rightarrow> pyerror + pyfloat" where
  "req_nutrient d k = bind_err (py_get d k (PInt 0)) py_float"

text \<open>
  The body of the \<^verbatim>\<open>try\<close> block of \<^verbatim>\<open>_parse_nutrition\<close>. The arguments of the
  constructor are evaluated from left to right, then the record is validated.
\<close>

definition parse_nutrition_try :: "string \<Rightarrow> pyerror + NutritionData" where
  "parse_nutrition_try ai_response =
     bind_err
       (case rx_search False rx_braces ai_response of
          Some (json_match, g) \<Rightarrow> json_loads json_match
        | None \<Rightarrow> json_loads ai_response)
       (\<lambda>data.
     bind_err (py_get data ''nutrition'' (PDict [])) (\<lambda>nutrition_raw.
     bind_err (req_nutrient nutrition_raw ''calories'') (\<lambda>cal.
     bind_err (req_nutrient nutrition_raw ''protein_g'') (\<lambda>pro.
     bind_err (req_nutrient nutrition_raw ''carbs_g'') (\<lambda>carb.
     bind_err (req_nutrient nutrition_raw ''fat_g'') (\<lambda>fat.
     bind_err (opt_nutrient nutrition_raw ''fiber_g'') (\<lambda>fib.
     bind_err (opt_nutrient nutrition_raw ''sugar_g'') (\<lambda>sug.
     bind_err (opt_nutrient nutrition_raw ''sodium_mg'') (\<lambda>sod.
     bind_err (py_get data ''ingredients'' (PList [])) (\<lambda>ing.
     bind_err (py_get data ''portions'' (PDict [])) (\<lambda>por.
     bind_err (py_get data ''meal_type'' PNone) (\<lambda>mt.
     bind_err (py_get data ''confidence_notes'' (PStr [])) (\<lambda>nt.
     bind_err (as_str_list ing) (\<lambda>ing'.
     bind_err (as_opt_str_dict por) (\<lambda>por'.
     bind_err (as_opt_str mt) (\<lambda>mt'.
     bind_err (as_opt_str nt) (\<lambda>nt'.
       Inr \<lparr> calories = cal,
             protein_g = pro,
             carbs_g = carb,
             fat_g = fat,
             fiber_g = fib,
             sugar_g = sug,
             sodium_mg = sod,
             ingredients = ing',
             portions = por',
             meal_type = mt',
             parse_confidence = Fin 0.8,
             notes_text = nt' \<rparr>)))))))))))))))))"

text \<open>
  \<^verbatim>\<open>_parse_nutrition\<close>: the handler is
  \<^verbatim>\<open>except (json.JSONDecodeError, KeyError, ValueError)\<close>; any other exception leaves
  the function.
\<close>

definition parse_nutrition :: "string \<Rightarrow> pyerror + NutritionData" where
  "parse_nutrition ai_response =
     (case parse_nutrition_try ai_response of
        Inr n \<Rightarrow> Inr n
      | Inl e \<Rightarrow>
          if e = JSONDecodeError \<or> e = KeyError \<or> is_ValueError e
          then Inr (parse_natural_language ai_response)
          else Inl e)"

section \<open>The response envelope and the provider adapters\<close>

datatype AIProvider = GEMINI_FLASH | GPT4_VISION | CLAUDE_VISION

text \<open>The value of an enum member, which is what a dump of it shows.\<close>

fun provider_value :: "AIProvider \<Rightarrow> string" where
  "provider_value GEMINI_FLASH = ''gemini-flash''"
| "provider_value GPT4_VISION = ''gpt4-vision''"
| "provider_value CLAUDE_VISION = ''claude-vision''"

record AIConfig =
  cfg_provider :: AIProvider
  cfg_model :: string
  api_key :: string
  temperature :: real
  max_tokens :: int
  timeout :: int

record AIResponse =
  provider :: AIProvider
  model :: string
  content :: string
  confidence :: real
  tokens_used :: int
  cost_usd :: real
  response_time_ms :: int
  timestamp :: real
  metadata :: "(string \<times> pyval) list option"
  error :: "string option"

subsection \<open>The world outside\<close>

text \<open>
  What a call to a provider, or to a library that can fail, comes back with: an exception
  (a subclass of \<^verbatim>\<open>Exception\<close>, given by its message \<^verbatim>\<open>str(e)\<close>) or a value.
  Signals that are not subclasses of \<^verbatim>\<open>Exception\<close>, such as a cancellation,
  are outside the model.
\<close>

datatype 'a outcome = Raises string | Returns 'a

text \<open>
  The system clock is read in order: \<open>clock w n\<close> is the n-th reading of
  \<^verbatim>\<open>time.time()\<close>, and \<open>ticks w\<close> counts the readings made. \<open>isoformat w\<close> renders a
  reading as \<^verbatim>\<open>datetime.now().isoformat()\<close> does.
\<close>

record world =
  clock :: "nat \<Rightarrow> real"
  ticks :: nat
  isoformat :: "real \<Rightarrow> string"

definition time_time :: "world \<Rightarrow> real \<times> world" where
  "time_time w = (clock w (ticks w), w\<lparr>ticks := Suc (ticks w)\<rparr>)"

text \<open>\<^verbatim>\<open>int(x)\<close> on a float truncates towards zero.\<close>

definition py_int :: "real \<Rightarrow> int" where
  "py_int x = (if 0 \<le> x then \<lfloor>x\<rfloor> else \<lceil>x\<rceil>)"

subsection \<open>The confidence heuristic of the base class\<close>

definition uncertainty_phrases :: "string list" where
  "uncertainty_phrases =
     [''might be'', ''could be'', ''possibly'', ''probably'',
      ''not sure'', ''unclear'', ''difficult to tell'']"

definition assess_confidence :: "string \<Rightarrow> real" where
  "assess_confidence response =
     (let lower_response = py_lower response;
          c1 = foldl (\<lambda>c phrase. if py_in phrase lower_response then c - 0.1 else c)
                 0.8 uncertainty_phrases;
          c2 = (if 200 < length response then c1 + 0.05 else c1)
      in max 0 (min 1 c2))"

text \<open>The messages of the exceptions that the adapters' own code can raise.\<close>

definition no_attribute :: "string \<Rightarrow> string" where
  "no_attribute name =
     [CHR 0x27] @ ''NoneType'' @ [CHR 0x27] @ '' object has no attribute '' @
     [CHR 0x27] @ name @ [CHR 0x27]"

definition index_error :: string where
  "index_error = ''list index out of range''"

definition key_error :: "string \<Rightarrow> string" where
  "key_error k = [CHR 0x27] @ k @ [CHR 0x27]"

text \<open>
  The handler \<^verbatim>\<open>except Exception as e\<close>, the same in all six operations: it reads the
  clock for the elapsed time and again for the timestamp.
\<close>

definition failure_envelope ::
  "AIProvider \<Rightarrow> AIConfig \<Rightarrow> real \<Rightarrow> string \<Rightarrow> world \<Rightarrow> AIResponse \<times> world" where
  "failure_envelope prov cfg start_time msg w =
     (case time_time w of (t, w1) \<Rightarrow>
      case time_time w1 of (ts, w2) \<Rightarrow>
        (\<lparr> provider = prov,
           model = cfg_model cfg,
           content = [],
           confidence = 0,
           tokens_used = 0,
           cost_usd = 0,
           response_time_ms = py_int ((t - start_time) * 1000),
           timestamp = ts,
           metadata = None,
           error = Some msg \<rparr>, w2))"

subsection \<open>The OpenAI adapter\<close>

record openai_usage =
  prompt_tokens :: int
  completion_tokens :: int
  total_tokens :: int

record openai_choice =
  message_content :: "string option"
  finish_reason :: string

record openai_completion =
  usage :: "openai_usage option"
  choices :: "openai_choice list"
  completion_model :: string

text \<open>
  The service object: its configuration and the client, which answers a request
  (the keyword arguments of \<^verbatim>\<open>chat.completions.create\<close>, as a dict).
\<close>

record OpenAIVisionService =
  openai_config :: AIConfig
  openai_provider :: AIProvider
  create :: "pyval \<Rightarrow> openai_completion outcome"

definition openai_init :: "string \<Rightarrow> string \<Rightarrow> AIConfig" where
  "openai_init key mdl =
     \<lparr> cfg_provider = GPT4_VISION, cfg_model = mdl, api_key = key,
       temperature = 0.7, max_tokens = 2048, timeout = 30 \<rparr>"

definition openai_calculate_cost :: "int \<Rightarrow> int \<Rightarrow> real" where
  "openai_calculate_cost input_tokens output_tokens =
     (let input_cost = (real_of_int input_tokens / 1000000) * 5.00;
          output_cost = (real_of_int output_tokens / 1000000) * 15.00
      in input_cost + output_cost)"

definition IMAGE_COST_BASE :: real where
  "IMAGE_COST_BASE = 0.01275"

definition openai_request ::
  "OpenAIVisionService \<Rightarrow> pyval \<Rightarrow> (string \<times> pyval) list \<Rightarrow> pyval" where
  "openai_request self messages kwargs =
     PDict [(''model'', PStr (cfg_model (openai_config self))),
            (''messages'', messages),
            (''temperature'',
               dict_get kwargs ''temperature'' (PFloat (Fin (temperature (openai_config self))))),
            (''max_tokens'',
               dict_get kwargs ''max_tokens'' (PInt (max_tokens (openai_config self))))]"

text \<open>
  The part of the three \<^verbatim>\<open>try\<close> blocks after the clock is read: token usage, cost and
  content, in the order the source reads them. \<open>Inl\<close> carries the message of the
  exception raised on the way.
\<close>

definition openai_read ::
  "openai_completion \<Rightarrow> string + (openai_usage \<times> openai_choice \<times> string)" where
  "openai_read response =
     (case usage response of
        None \<Rightarrow> Inl (no_attribute ''prompt_tokens'')
      | Some u \<Rightarrow>
          (case choices response of
             [] \<Rightarrow> Inl index_error
           | ch # _ \<Rightarrow>
               (case message_content ch of
                  None \<Rightarrow> Inl (no_attribute ''lower'')
                | Some c \<Rightarrow> Inr (u, ch, c))))"

text \<open>The one message of \<^verbatim>\<open>analyze_image\<close>: the prompt and the image.\<close>

definition image_messages :: "string \<Rightarrow> string \<Rightarrow> (string \<times> pyval) list \<Rightarrow> pyval" where
  "image_messages image_url prompt kwargs =
     PList [PDict [(''role'', PStr ''user''),
                   (''content'',
                      PList [PDict [(''type'', PStr ''text''), (''text'', PStr prompt)],
                             PDict [(''type'', PStr ''image_url''),
                                    (''image_url'',
                                       PDict [(''url'', PStr image_url),
                                              (''detail'',
                                                 dict_get kwargs ''detail'' (PStr ''high''))])]])]]"

definition openai_analyze_image ::
  "OpenAIVisionService \<Rightarrow> string \<Rightarrow> string \<Rightarrow> (string \<times> pyval) list \<Rightarrow> world
     \<Rightarrow> AIResponse \<times> world" where
  "openai_analyze_image self image_url prompt kwargs w =
     (case time_time w of (start_time, w1) \<Rightarrow>
      let messages = image_messages image_url prompt kwargs
      in case create self (openai_request self messages kwargs) of
           Raises msg \<Rightarrow>
             failure_envelope (openai_provider self) (openai_config self) start_time msg w1
         | Returns response \<Rightarrow>
             (case time_time w1 of (t, w2) \<Rightarrow>
              case openai_read response of
                Inl msg \<Rightarrow>
                  failure_envelope (openai_provider self) (openai_config self) start_time msg w2
              | Inr (u, ch, c) \<Rightarrow>
                  (case time_time w2 of (ts, w3) \<Rightarrow>
                     (\<lparr> provider = openai_provider self,
                        model = cfg_model (openai_config self),
                        content = c,
                        confidence = min 1 (assess_confidence c + 0.05),
                        tokens_used = total_tokens u,
                        cost_usd =
                          openai_calculate_cost (prompt_tokens u) (completion_tokens u)
                          + IMAGE_COST_BASE,
                        response_time_ms = py_int ((t - start_time) * 1000),
                        timestamp = ts,
                        metadata =
                          Some [(''input_tokens'', PInt (prompt_tokens u)),
                                (''output_tokens'', PInt (completion_tokens u)),
                                (''finish_reason'', PStr (finish_reason ch)),
                                (''model'', PStr (completion_model response))],
                        error = None \<rparr>, w3))))"

text \<open>
  \<^verbatim>\<open>generate_text\<close> and \<^verbatim>\<open>chat\<close> differ in the messages they send; what they do with
  the completion is the same code, written twice in the source.
\<close>

definition openai_text_envelope ::
  "OpenAIVisionService \<Rightarrow> pyval \<Rightarrow> (string \<times> pyval) list \<Rightarrow> bool \<Rightarrow> world
     \<Rightarrow> AIResponse \<times> world" where
  "openai_text_envelope self messages kwargs with_reason w =
     (case time_time w of (start_time, w1) \<Rightarrow>
      case create self (openai_request self messages kwargs) of
        Raises msg \<Rightarrow>
          failure_envelope (openai_provider self) (openai_config self) start_time msg w1
      | Returns response \<Rightarrow>
          (case time_time w1 of (t, w2) \<Rightarrow>
           case openai_read response of
             Inl msg \<Rightarrow>
               failure_envelope (openai_provider self) (openai_config self) start_time msg w2
           | Inr (u, ch, c) \<Rightarrow>
               (case time_time w2 of (ts, w3) \<Rightarrow>
                  (\<lparr> provider = openai_provider self,
                     model = cfg_model (openai_config self),
                     content = c,
                     confidence = assess_confidence c + 0.05,
                     tokens_used = total_tokens u,
                     cost_usd = openai_calculate_cost (prompt_tokens u) (completion_tokens u),
                     response_time_ms = py_int ((t - start_time) * 1000),
                     timestamp = ts,
                     metadata =
                       Some ([(''input_tokens'', PInt (prompt_tokens u)),
                              (''output_tokens'', PInt (completion_tokens u))]
                             @ (if with_reason
                                then [(''finish_reason'', PStr (finish_reason ch))] else [])),
                     error = None \<rparr>, w3))))"

definition message :: "string \<Rightarrow> string \<Rightarrow> (string \<times> string) list" where
  "message role text = [(''role'', role), (''content'', text)]"

definition message_val :: "(string \<times> string) list \<Rightarrow> pyval" where
  "message_val m = PDict (map (\<lambda>(k, v). (k, PStr v)) m)"

text \<open>A list of message dicts, as the client is given it.\<close>

definition chat_messages :: "(string \<times> string) list list \<Rightarrow> pyval" where
  "chat_messages messages = PList (map message_val messages)"

text \<open>
  The messages of \<^verbatim>\<open>generate_text\<close>: the context, when there is one and it is not
  empty, as the system message, then the prompt.
\<close>

definition text_messages :: "string \<Rightarrow> string option \<Rightarrow> pyval" where
  "text_messages prompt context =
     chat_messages
       ((case context of
           None \<Rightarrow> []
         | Some c \<Rightarrow> if c = [] then [] else [message ''system'' c])
        @ [message ''user'' prompt])"

definition openai_generate_text ::
  "OpenAIVisionService \<Rightarrow> string \<Rightarrow> string option \<Rightarrow> (string \<times> pyval) list \<Rightarrow> world
     \<Rightarrow> AIResponse \<times> world" where
  "openai_generate_text self prompt context kwargs w =
     openai_text_envelope self (text_messages prompt context) kwargs True w"

definition openai_chat ::
  "OpenAIVisionService \<Rightarrow> (string \<times> string) list list \<Rightarrow> (string \<times> pyval) list \<Rightarrow> world
     \<Rightarrow> AIResponse \<times> world" where
  "openai_chat self messages kwargs w =
     openai_text_envelope self (chat_messages messages) kwargs False w"

subsection \<open>The Gemini adapter\<close>

text \<open>
  A response of the Gemini client: the token counts when the attribute
  \<^verbatim>\<open>usage_metadata\<close> is there, the property \<^verbatim>\<open>text\<close> (which raises when the response has
  no text part) and the names of the candidates' finish reasons.
\<close>

record gemini_response =
  usage_metadata :: "(int \<times> int) option"
  response_text :: "string outcome"
  candidates :: "string list"

text \<open>
  The service object: its configuration, the two library calls that fetch the image
  (\<^verbatim>\<open>base64.b64decode\<close> and \<^verbatim>\<open>requests.get\<close>), and the model client:
  \<^verbatim>\<open>generate_content\<close> on a request, and \<^verbatim>\<open>send_message\<close> of a chat with its history.
  The constructors of the client library that run before the request is sent
  (\<^verbatim>\<open>GenerationConfig\<close>, \<^verbatim>\<open>start_chat\<close>) are taken to succeed; they sit in the same
  \<^verbatim>\<open>try\<close> block.
\<close>

record GeminiService =
  gemini_config :: AIConfig
  gemini_provider :: AIProvider
  b64decode :: "string \<Rightarrow> string outcome"
  requests_get :: "string \<Rightarrow> string outcome"
  generate_content :: "pyval \<Rightarrow> gemini_response outcome"
  send_message :: "pyval \<Rightarrow> string \<Rightarrow> gemini_response outcome"

definition gemini_init :: "string \<Rightarrow> string \<Rightarrow> AIConfig" where
  "gemini_init key mdl =
     \<lparr> cfg_provider = GEMINI_FLASH, cfg_model = mdl, api_key = key,
       temperature = 0.7, max_tokens = 2048, timeout = 30 \<rparr>"

definition gemini_calculate_cost :: "int \<Rightarrow> int \<Rightarrow> real" where
  "gemini_calculate_cost input_tokens output_tokens =
     (let input_cost = (real_of_int input_tokens / 1000000) * 0.075;
          output_cost = (real_of_int output_tokens / 1000000) * 0.30
      in input_cost + output_cost)"

definition IMAGE_COST_PER_1K :: real where
  "IMAGE_COST_PER_1K = 0.0025"

definition generation_config :: "GeminiService \<Rightarrow> (string \<times> pyval) list \<Rightarrow> pyval" where
  "generation_config self kwargs =
     PDict [(''temperature'',
               dict_get kwargs ''temperature'' (PFloat (Fin (temperature (gemini_config self))))),
            (''max_output_tokens'',
               dict_get kwargs ''max_tokens'' (PInt (max_tokens (gemini_config self))))]"

text \<open>\<^verbatim>\<open>len(s) // 4\<close>, the estimate of a token count.\<close>

definition approx_tokens :: "string \<Rightarrow> int" where
  "approx_tokens s = int (length s) div 4"

text \<open>The image of \<^verbatim>\<open>analyze_image\<close>: a data URL is decoded, any other URL is fetched.\<close>

definition gemini_image_bytes :: "GeminiService \<Rightarrow> string \<Rightarrow> string outcome" where
  "gemini_image_bytes self image_url =
     (if take 10 image_url = ''data:image'' then
        (case split_on (\<lambda>c. c = CHR '','') image_url of
           a # image_data # _ \<Rightarrow> b64decode self image_data
         | _ \<Rightarrow> Raises index_error)
      else requests_get self image_url)"

text \<open>
  What \<^verbatim>\<open>analyze_image\<close> and \<^verbatim>\<open>generate_text\<close> share after the model has answered:
  the token counts (taken from the usage data, else estimated), the cost with the
  surcharge given, the confidence and the envelope.
\<close>

definition gemini_envelope ::
  "GeminiService \<Rightarrow> real \<Rightarrow> string \<Rightarrow> real \<Rightarrow> bool \<Rightarrow> gemini_response \<Rightarrow> world
     \<Rightarrow> AIResponse \<times> world" where
  "gemini_envelope self start_time prompt surcharge with_reason response w1 =
     (case time_time w1 of (t, w2) \<Rightarrow>
      case response_text response of
        Raises msg \<Rightarrow>
          failure_envelope (gemini_provider self) (gemini_config self) start_time msg w2
      | Returns txt \<Rightarrow>
          (let input_tokens =
                 (case usage_metadata response of
                    Some (p, c) \<Rightarrow> p | None \<Rightarrow> approx_tokens prompt);
               output_tokens =
                 (case usage_metadata response of
                    Some (p, c) \<Rightarrow> c | None \<Rightarrow> approx_tokens txt)
           in case time_time w2 of (ts, w3) \<Rightarrow>
                (\<lparr> provider = gemini_provider self,
                   model = cfg_model (gemini_config self),
                   content = txt,
                   confidence = assess_confidence txt,
                   tokens_used = input_tokens + output_tokens,
                   cost_usd = gemini_calculate_cost input_tokens output_tokens + surcharge,
                   response_time_ms = py_int ((t - start_time) * 1000),
                   timestamp = ts,
                   metadata =
                     Some ([(''input_tokens'', PInt input_tokens),
                            (''output_tokens'', PInt output_tokens)]
                           @ (if with_reason
                              then [(''finish_reason'',
                                       (case candidates response of
                                          [] \<Rightarrow> PNone | r # _ \<Rightarrow> PStr r))]
                              else [])),
                   error = None \<rparr>, w3)))"

text \<open>The arguments of \<^verbatim>\<open>generate_content\<close> for an image, and for a text.\<close>

definition image_request ::
  "GeminiService \<Rightarrow> string \<Rightarrow> string \<Rightarrow> (string \<times> pyval) list \<Rightarrow> pyval" where
  "image_request self prompt image_bytes kwargs =
     PDict [(''contents'',
               PList [PStr prompt,
                      PDict [(''mime_type'', PStr ''image/jpeg''),
                             (''data'', PStr image_bytes)]]),
            (''generation_config'', generation_config self kwargs)]"

definition text_request :: "GeminiService \<Rightarrow> string \<Rightarrow> (string \<times> pyval) list \<Rightarrow> pyval" where
  "text_request self full_prompt kwargs =
     PDict [(''contents'', PStr full_prompt),
            (''generation_config'', generation_config self kwargs)]"

text \<open>The context, when there is one and it is not empty, a blank line, the prompt.\<close>

definition full_prompt_of :: "string \<Rightarrow> string option \<Rightarrow> string" where
  "full_prompt_of prompt context =
     (case context of
        None \<Rightarrow> prompt
      | Some c \<Rightarrow> if c = [] then prompt else c @ [CHR 0x0A, CHR 0x0A] @ prompt)"

definition gemini_analyze_image ::
  "GeminiService \<Rightarrow> string \<Rightarrow> string \<Rightarrow> (string \<times> pyval) list \<Rightarrow> world
     \<Rightarrow> AIResponse \<times> world" where
  "gemini_analyze_image self image_url prompt kwargs w =
     (case time_time w of (start_time, w1) \<Rightarrow>
      case gemini_image_bytes self image_url of
        Raises msg \<Rightarrow>
          failure_envelope (gemini_provider self) (gemini_config self) start_time msg w1
      | Returns image_bytes \<Rightarrow>
          (case generate_content self (image_request self prompt image_bytes kwargs) of
             Raises msg \<Rightarrow>
               failure_envelope (gemini_provider self) (gemini_config self) start_time msg w1
           | Returns response \<Rightarrow>
               gemini_envelope self start_time prompt (IMAGE_COST_PER_1K / 1000) True
                 response w1))"

definition gemini_generate_text ::
  "GeminiService \<Rightarrow> string \<Rightarrow> string option \<Rightarrow> (string \<times> pyval) list \<Rightarrow> world
     \<Rightarrow> AIResponse \<times> world" where
  "gemini_generate_text self prompt context kwargs w =
     (case time_time w of (start_time, w1) \<Rightarrow>
      let full_prompt = full_prompt_of prompt context
      in case generate_content self (text_request self full_prompt kwargs) of
           Raises msg \<Rightarrow>
             failure_envelope (gemini_provider self) (gemini_config self) start_time msg w1
         | Returns response \<Rightarrow>
             gemini_envelope self start_time full_prompt 0 False response w1)"

text \<open>
  The history that \<^verbatim>\<open>chat\<close> builds from all messages but the last. A message is a dict,
  and reading a key it lacks raises \<^verbatim>\<open>KeyError\<close>.
\<close>

fun gemini_history :: "(string \<times> string) list list \<Rightarrow> string + pyval list" where
  "gemini_history [] = Inr []"
| "gemini_history (msg # msgs) =
     (case map_of msg ''role'' of
        None \<Rightarrow> Inl (key_error ''role'')
      | Some r \<Rightarrow>
          (case map_of msg ''content'' of
             None \<Rightarrow> Inl (key_error ''content'')
           | Some c \<Rightarrow>
               (case gemini_history msgs of
                  Inl e \<Rightarrow> Inl e
                | Inr h \<Rightarrow>
                    Inr (PDict [(''role'', PStr (if r = ''user'' then ''user'' else ''model'')),
                                (''parts'', PList [PStr c])] # h))))"

text \<open>\<^verbatim>\<open>len(m["content"])\<close>, on a message that has the key.\<close>

definition content_length :: "(string \<times> string) list \<Rightarrow> int" where
  "content_length m = (case map_of m ''content'' of None \<Rightarrow> 0 | Some c \<Rightarrow> int (length c))"

definition gemini_chat ::
  "GeminiService \<Rightarrow> (string \<times> string) list list \<Rightarrow> (string \<times> pyval) list \<Rightarrow> world
     \<Rightarrow> AIResponse \<times> world" where
  "gemini_chat self messages kwargs w =
     (case time_time w of (start_time, w1) \<Rightarrow>
      case gemini_history (butlast messages) of
        Inl msg \<Rightarrow>
          failure_envelope (gemini_provider self) (gemini_config self) start_time msg w1
      | Inr history \<Rightarrow>
          if messages = [] then
            failure_envelope (gemini_provider self) (gemini_config self) start_time
              index_error w1
          else
            (case map_of (last messages) ''content'' of
               None \<Rightarrow>
                 failure_envelope (gemini_provider self) (gemini_config self) start_time
                   (key_error ''content'') w1
             | Some last_message \<Rightarrow>
                 (case send_message self (PList history) last_message of
                    Raises msg \<Rightarrow>
                      failure_envelope (gemini_provider self) (gemini_config self) start_time
                        msg w1
                  | Returns response \<Rightarrow>
                      (case time_time w1 of (t, w2) \<Rightarrow>
                       case response_text response of
                         Raises msg \<Rightarrow>
                           failure_envelope (gemini_provider self) (gemini_config self)
                             start_time msg w2
                       | Returns txt \<Rightarrow>
                           (let total_prompt_length =
                                  sum_list (map content_length messages);
                                input_tokens = total_prompt_length div 4;
                                output_tokens = approx_tokens txt
                            in case time_time w2 of (ts, w3) \<Rightarrow>
                                 (\<lparr> provider = gemini_provider self,
                                    model = cfg_model (gemini_config self),
                                    content = txt,
                                    confidence = assess_confidence txt,
                                    tokens_used = input_tokens + output_tokens,
                                    cost_usd = gemini_calculate_cost input_tokens output_tokens,
                                    response_time_ms = py_int ((t - start_time) * 1000),
                                    timestamp = ts,
                                    metadata = None,
                                    error = None \<rparr>, w3))))))"

section \<open>The meal analyzer\<close>

text \<open>
  The interface \<^verbatim>\<open>BaseAIService\<close>: an adapter object is its three operations. The two
  classes implement it; a test can put any other object in their place.
\<close>

type_synonym image_adapter =
  "string \<Rightarrow> string \<Rightarrow> (string \<times> pyval) list \<Rightarrow> world \<Rightarrow> AIResponse \<times> world"

type_synonym text_adapter =
  "string \<Rightarrow> string option \<Rightarrow> (string \<times> pyval) list \<Rightarrow> world \<Rightarrow> AIResponse \<times> world"

type_synonym chat_adapter =
  "(string \<times> string) list list \<Rightarrow> (string \<times> pyval) list \<Rightarrow> world \<Rightarrow> AIResponse \<times> world"

record BaseAIService =
  analyze_image :: image_adapter
  generate_text :: text_adapter
  chat :: chat_adapter

definition gemini_object :: "GeminiService \<Rightarrow> BaseAIService" where
  "gemini_object g =
     \<lparr> analyze_image = gemini_analyze_image g,
       generate_text = gemini_generate_text g,
       chat = gemini_chat g \<rparr>"

definition openai_object :: "OpenAIVisionService \<Rightarrow> BaseAIService" where
  "openai_object p =
     \<lparr> analyze_image = openai_analyze_image p,
       generate_text = openai_generate_text p,
       chat = openai_chat p \<rparr>"

text \<open>
  The three capability classes hold the same two adapters, \<^verbatim>\<open>self.gemini\<close> and
  \<^verbatim>\<open>self.gpt4\<close>; the analyzer and the chat assistant also keep a default provider, which
  no method reads.
\<close>

record RecipeGenerator =
  gemini :: BaseAIService
  gpt4 :: BaseAIService

record MealAnalyzer = RecipeGenerator +
  default_provider :: AIProvider

type_synonym ChatAssistant = MealAnalyzer

definition MealAnalyzer_init :: "GeminiService \<Rightarrow> OpenAIVisionService \<Rightarrow> MealAnalyzer" where
  "MealAnalyzer_init g p =
     \<lparr> gemini = gemini_object g, gpt4 = openai_object p, default_provider = GEMINI_FLASH \<rparr>"

definition RecipeGenerator_init :: "GeminiService \<Rightarrow> OpenAIVisionService \<Rightarrow> RecipeGenerator" where
  "RecipeGenerator_init g p = \<lparr> gemini = gemini_object g, gpt4 = openai_object p \<rparr>"

definition CONFIDENCE_THRESHOLD :: real where
  "CONFIDENCE_THRESHOLD = 0.7"

definition get_analysis_prompt :: string where
  \<open>get_analysis_prompt =
     ''Analyze this meal photo and provide detailed nutrition information.\<newline>\<newline>Your response MUST be in valid JSON format following this structure:\<newline>\<newline>{\<newline>  "meal_name": "Brief description of the meal",\<newline>  "ingredients": ["ingredient1", "ingredient2", ...],\<newline>  "portions": {\<newline>    "ingredient1": "estimated amount (e.g., 150g, 1 cup)",\<newline>    "ingredient2": "estimated amount"\<newline>  },\<newline>  "nutrition": {\<newline>    "calories": 450,\<newline>    "protein_g": 25.5,\<newline>    "carbs_g": 45.0,\<newline>    "fat_g": 15.0,\<newline>    "fiber_g": 5.0,\<newline>    "sugar_g": 8.0,\<newline>    "sodium_mg": 650\<newline>  },\<newline>  "meal_type": "breakfast|lunch|dinner|snack",\<newline>  "confidence_notes": "Any uncertainties or assumptions made"\<newline>}\<newline>\<newline>Instructions:\<newline>1. Identify ALL visible food items\<newline>2. Estimate portion sizes based on typical serving sizes\<newline>3. Calculate total nutrition for the ENTIRE meal\<newline>4. Be as accurate as possible with nutritional values\<newline>5. Include notes about any uncertainties\<newline>6. If you cannot clearly identify something, mention it in confidence_notes\<newline>\<newline>Return ONLY valid JSON, no additional text before or after.''\<close>

definition quick_estimate_prompt :: string where
  \<open>quick_estimate_prompt =
     ''Analyze this meal and provide a quick estimate:\<newline>\<newline>Return JSON format:\<newline>{\<newline>  "calories": <estimated calories>,\<newline>  "description": "brief meal description"\<newline>}''\<close>

text \<open>
  Each call of an adapter is recorded, with the adapter it went to and its arguments: the
  analyzer's functions return the calls they made next to their result.
\<close>

datatype adapter_call =
  AdapterCall AIProvider string string "(string \<times> pyval) list"

fun call_target :: "adapter_call \<Rightarrow> AIProvider" where
  "call_target (AdapterCall p image_url prompt kwargs) = p"

definition analyze_with_gemini ::
  "MealAnalyzer \<Rightarrow> string \<Rightarrow> world \<Rightarrow> AIResponse \<times> adapter_call list \<times> world" where
  "analyze_with_gemini self image_url w =
     (let prompt = get_analysis_prompt
      in case analyze_image (gemini self) image_url prompt [] w of
           (r, w') \<Rightarrow> (r, [AdapterCall GEMINI_FLASH image_url prompt []], w'))"

definition analyze_with_gpt4 ::
  "MealAnalyzer \<Rightarrow> string \<Rightarrow> world \<Rightarrow> AIResponse \<times> adapter_call list \<times> world" where
  "analyze_with_gpt4 self image_url w =
     (let prompt = get_analysis_prompt
      in case analyze_image (gpt4 self) image_url prompt [(''detail'', PStr ''high'')] w of
           (r, w') \<Rightarrow>
             (r, [AdapterCall GPT4_VISION image_url prompt [(''detail'', PStr ''high'')]], w'))"

text \<open>\<^verbatim>\<open>_select_provider\<close>. Every member of the enum is a non-empty string, hence true.\<close>

definition select_provider :: "string \<Rightarrow> AIProvider option \<Rightarrow> AIProvider" where
  "select_provider user_tier force_provider =
     (case force_provider of
        Some p \<Rightarrow> p
      | None \<Rightarrow> if user_tier = ''premium'' then GPT4_VISION else GEMINI_FLASH)"

text \<open>
  The first half of \<^verbatim>\<open>analyze_meal\<close>, its routing: the envelope it goes on with and the
  calls made.
\<close>

definition route_meal ::
  "MealAnalyzer \<Rightarrow> string \<Rightarrow> string \<Rightarrow> AIProvider option \<Rightarrow> world
     \<Rightarrow> AIResponse \<times> adapter_call list \<times> world" where
  "route_meal self image_url user_tier force_provider w =
     (let provider = select_provider user_tier force_provider
      in if provider = GEMINI_FLASH then
           (case analyze_with_gemini self image_url w of
              (result, calls1, w1) \<Rightarrow>
                if confidence result < CONFIDENCE_THRESHOLD \<and> user_tier = ''premium'' then
                  (case analyze_with_gpt4 self image_url w1 of
                     (result', calls2, w2) \<Rightarrow> (result', calls1 @ calls2, w2))
                else (result, calls1, w1))
         else analyze_with_gpt4 self image_url w)"

fun opt_float_val :: "pyfloat option \<Rightarrow> pyval" where
  "opt_float_val None = PNone"
| "opt_float_val (Some x) = PFloat x"

fun opt_str_val :: "string option \<Rightarrow> pyval" where
  "opt_str_val None = PNone"
| "opt_str_val (Some s) = PStr s"

definition model_dump :: "NutritionData \<Rightarrow> pyval" where
  "model_dump n =
     PDict [(''calories'', PFloat (calories n)),
            (''protein_g'', PFloat (protein_g n)),
            (''carbs_g'', PFloat (carbs_g n)),
            (''fat_g'', PFloat (fat_g n)),
            (''fiber_g'', opt_float_val (fiber_g n)),
            (''sugar_g'', opt_float_val (sugar_g n)),
            (''sodium_mg'', opt_float_val (sodium_mg n)),
            (''ingredients'', PList (map PStr (ingredients n))),
            (''portions'',
               (case portions n of
                  None \<Rightarrow> PNone
                | Some d \<Rightarrow> PDict (map (\<lambda>(k, v). (k, PStr v)) d))),
            (''meal_type'', opt_str_val (meal_type n)),
            (''confidence'', PFloat (parse_confidence n)),
            (''notes'', opt_str_val (notes_text n))]"

text \<open>
  The second half of \<^verbatim>\<open>analyze_meal\<close>: the content of the envelope is parsed and the
  answer is put together. The provider of the envelope is an enum member that is a
  string, and is shown by its value. An exception that leaves \<^verbatim>\<open>_parse_nutrition\<close>
  leaves \<^verbatim>\<open>analyze_meal\<close> too.
\<close>

definition meal_answer :: "AIResponse \<Rightarrow> world \<Rightarrow> (pyerror + pyval) \<times> world" where
  "meal_answer result w =
     (case parse_nutrition (content result) of
        Inl e \<Rightarrow> (Inl e, w)
      | Inr nutrition \<Rightarrow>
          (case time_time w of (now, w') \<Rightarrow>
             (Inr (PDict
                [(''nutrition'', model_dump nutrition),
                 (''ai_metadata'',
                    PDict [(''provider'', PStr (provider_value (provider result))),
                           (''model'', PStr (model result)),
                           (''confidence'', PFloat (Fin (confidence result))),
                           (''cost_usd'', PFloat (Fin (cost_usd result))),
                           (''response_time_ms'', PInt (response_time_ms result)),
                           (''tokens_used'', PInt (tokens_used result)),
                           (''error'', opt_str_val (error result))]),
                 (''analyzed_at'', PStr (isoformat w' now))]), w')))"

text \<open>\<^verbatim>\<open>analyze_meal\<close>: the routing, then the answer from the envelope it ended with.\<close>

definition analyze_meal ::
  "MealAnalyzer \<Rightarrow> string \<Rightarrow> string \<Rightarrow> AIProvider option \<Rightarrow> world
     \<Rightarrow> (pyerror + pyval) \<times> adapter_call list \<times> world" where
  "analyze_meal self image_url user_tier force_provider w =
     (case route_meal self image_url user_tier force_provider w of
        (result, calls, w1) \<Rightarrow>
          (case meal_answer result w1 of (answer, w2) \<Rightarrow> (answer, calls, w2)))"

text \<open>
  \<^verbatim>\<open>quick_calorie_estimate\<close>: the bare \<^verbatim>\<open>except\<close> takes every exception of the
  \<^verbatim>\<open>try\<close> block to the second dict.
\<close>

definition quick_calorie_estimate ::
  "MealAnalyzer \<Rightarrow> string \<Rightarrow> world \<Rightarrow> pyval \<times> adapter_call list \<times> world" where
  "quick_calorie_estimate self image_url w =
     (let prompt = quick_estimate_prompt
      in case analyze_image (gemini self) image_url prompt [] w of
           (result, w1) \<Rightarrow>
             (case bind_err (json_loads (content result)) (\<lambda>data.
                   bind_err (py_get data ''calories'' (PInt 0)) (\<lambda>cal.
                   bind_err (py_get data ''description'' (PStr ''Unknown meal'')) (\<lambda>descr.
                     Inr (PDict [(''calories'', cal),
                                 (''description'', descr),
                                 (''cost_usd'', PFloat (Fin (cost_usd result))),
                                 (''response_time_ms'', PInt (response_time_ms result))])))) of
                Inr d \<Rightarrow> d
              | Inl e \<Rightarrow>
                  PDict [(''calories'', PInt 0),
                         (''description'', PStr ''Could not analyze''),
                         (''error'', opt_str_val (error result))],
              [AdapterCall GEMINI_FLASH image_url prompt []], w1))"

section \<open>The recipe generator and the chat assistant\<close>

text \<open>
  Of these two classes the functions that answer with an \<^verbatim>\<open>ai_metadata\<close> block are
  embedded. The prompt of \<^verbatim>\<open>generate_recipe\<close>, \<^verbatim>\<open>suggest_meal\<close> and
  \<^verbatim>\<open>analyze_diet_trends\<close>, and the message list of \<^verbatim>\<open>chat\<close>, are assembled from the
  arguments by string formatting; the functions below take them as assembled. The parsed
  recipe, \<^verbatim>\<open>self._parse_recipe(result.content).model_dump()\<close>, is the argument
  \<open>parse_recipe\<close>: the source's \<^verbatim>\<open>_parse_recipe\<close> returns a record for every text, its
  handler being \<^verbatim>\<open>except Exception\<close>.
\<close>

definition generate_recipe ::
  "RecipeGenerator \<Rightarrow> (string \<Rightarrow> pyval) \<Rightarrow> string \<Rightarrow> bool \<Rightarrow> world \<Rightarrow> pyval \<times> world" where
  "generate_recipe self parse_recipe prompt use_gpt4 w =
     (case (if use_gpt4 then generate_text (gpt4 self) prompt None [] w
            else generate_text (gemini self) prompt None [] w) of
        (result, w1) \<Rightarrow>
          (case time_time w1 of (now, w2) \<Rightarrow>
             (PDict [(''recipe'', parse_recipe (content result)),
                     (''ai_metadata'',
                        PDict [(''provider'', PStr (provider_value (provider result))),
                               (''model'', PStr (model result)),
                               (''confidence'', PFloat (Fin (confidence result))),
                               (''cost_usd'', PFloat (Fin (cost_usd result))),
                               (''response_time_ms'', PInt (response_time_ms result))]),
                     (''generated_at'', PStr (isoformat w2 now))], w2)))"

definition photo_prompt :: "string \<Rightarrow> string" where
  \<open>photo_prompt preference =
     (let extra_instruction =
            (if preference = ''healthier'' then
               ''Create a healthier version with fewer calories, less fat, and more vegetables.''
             else if preference = ''different'' then
               ''Create a different recipe inspired by the flavors and ingredients in this dish.''
             else
               ''Create a recipe that recreates this dish as accurately as possible.'')
      in ''Analyze this meal photo and create a detailed recipe.\<newline>\<newline>''
         @ extra_instruction @
         ''\<newline>\<newline>Return JSON format:\<newline>{\<newline>  "name": "Recipe name",\<newline>  "description": "Brief description",\<newline>  "ingredients": ["ingredient 1 with amount", "ingredient 2 with amount", ...],\<newline>  "instructions": ["Step 1", "Step 2", ...],\<newline>  "prep_time_min": 15,\<newline>  "cook_time_min": 30,\<newline>  "servings": 4,\<newline>  "difficulty": "easy|medium|hard",\<newline>  "nutrition_per_serving": {\<newline>    "calories": 350,\<newline>    "protein_g": 25,\<newline>    "carbs_g": 40,\<newline>    "fat_g": 10,\<newline>    "fiber_g": 5\<newline>  },\<newline>  "tags": ["quick", "healthy", ...],\<newline>  "cuisine": "Italian",\<newline>  "dietary_info": ["vegetarian", ...]\<newline>}'')\<close>

definition generate_from_photo ::
  "RecipeGenerator \<Rightarrow> (string \<Rightarrow> pyval) \<Rightarrow> string \<Rightarrow> string \<Rightarrow> world \<Rightarrow> pyval \<times> world" where
  "generate_from_photo self parse_recipe image_url preference w =
     (case analyze_image (gpt4 self) image_url (photo_prompt preference)
             [(''detail'', PStr ''high'')] w of
        (result, w1) \<Rightarrow>
          (PDict [(''recipe'', parse_recipe (content result)),
                  (''ai_metadata'',
                     PDict [(''provider'', PStr (provider_value (provider result))),
                            (''cost_usd'', PFloat (Fin (cost_usd result))),
                            (''response_time_ms'', PInt (response_time_ms result))])], w1))"

definition SYSTEM_PROMPT :: string where
  \<open>SYSTEM_PROMPT =
     ''You are Sarma, an expert nutrition and health assistant. Your role is to:\<newline>\<newline>1. **Provide accurate nutrition advice** based on current scientific evidence\<newline>2. **Suggest healthy meals** tailored to user preferences and goals\<newline>3. **Answer health questions** about diet, weight management, and wellness\<newline>4. **Motivate and encourage** users on their health journey\<newline>5. **Be conversational and friendly** while maintaining professionalism\<newline>\<newline>Guidelines:\<newline>- Always prioritize user safety - recommend consulting doctors for medical issues\<newline>- Provide practical, actionable advice\<newline>- Consider dietary restrictions and allergies\<newline>- Be positive and encouraging\<newline>- Use simple language, avoid excessive jargon\<newline>- When unsure, acknowledge limitations\<newline>\<newline>You have access to the user'' @ [CHR 0x27] @
     ''s meal history, health goals, and dietary preferences through context.''\<close>

definition assistant_chat ::
  "ChatAssistant \<Rightarrow> (string \<times> string) list list \<Rightarrow> bool \<Rightarrow> world \<Rightarrow> pyval \<times> world" where
  "assistant_chat self messages use_gpt4 w =
     (let provider_object = (if use_gpt4 then gpt4 self else gemini self)
      in case chat provider_object messages [] w of
           (result, w1) \<Rightarrow>
             (case time_time w1 of (now, w2) \<Rightarrow>
                (PDict [(''response'', PStr (content result)),
                        (''ai_metadata'',
                           PDict [(''provider'', PStr (provider_value (provider result))),
                                  (''model'', PStr (model result)),
                                  (''confidence'', PFloat (Fin (confidence result))),
                                  (''cost_usd'', PFloat (Fin (cost_usd result))),
                                  (''response_time_ms'', PInt (response_time_ms result)),
                                  (''tokens_used'', PInt (tokens_used result))]),
                        (''timestamp'', PStr (isoformat w2 now))], w2)))"

definition suggest_meal ::
  "ChatAssistant \<Rightarrow> string \<Rightarrow> string \<Rightarrow> bool \<Rightarrow> world \<Rightarrow> pyval \<times> world" where
  "suggest_meal self meal_type_arg prompt use_gpt4 w =
     (let provider_object = (if use_gpt4 then gpt4 self else gemini self)
      in case generate_text provider_object prompt None [] w of
           (result, w1) \<Rightarrow>
             (PDict [(''suggestion'', PStr (content result)),
                     (''meal_type'', PStr meal_type_arg),
                     (''ai_metadata'',
                        PDict [(''provider'', PStr (provider_value (provider result))),
                               (''cost_usd'', PFloat (Fin (cost_usd result))),
                               (''response_time_ms'', PInt (response_time_ms result))])], w1))"

definition analyze_diet_trends ::
  "ChatAssistant \<Rightarrow> pyval list \<Rightarrow> int \<Rightarrow> string \<Rightarrow> bool \<Rightarrow> world \<Rightarrow> pyval \<times> world" where
  "analyze_diet_trends self recent_meals time_period_days prompt use_gpt4 w =
     (let provider_object = (if use_gpt4 then gpt4 self else gemini self)
      in case generate_text provider_object prompt (Some SYSTEM_PROMPT) [] w of
           (result, w1) \<Rightarrow>
             (PDict [(''analysis'', PStr (content result)),
                     (''time_period_days'', PInt time_period_days),
                     (''meals_analyzed'', PInt (int (length recent_meals))),
                     (''ai_metadata'',
                        PDict [(''provider'', PStr (provider_value (provider result))),
                               (''cost_usd'', PFloat (Fin (cost_usd result))),
                               (''response_time_ms'', PInt (response_time_ms result))])], w1))"

text \<open>The keys of the \<^verbatim>\<open>ai_metadata\<close> block of an answer, in the order they were written.\<close>

definition ai_metadata_keys :: "pyval \<Rightarrow> string list" where
  "ai_metadata_keys answer =
     (case answer of
        PDict d \<Rightarrow> (case map_of d ''ai_metadata'' of Some (PDict m) \<Rightarrow> map fst m | _ \<Rightarrow> [])
      | _ \<Rightarrow> [])"

definition dict_keys :: "pyval \<Rightarrow> string list" where
  "dict_keys answer = (case answer of PDict d \<Rightarrow> map fst d | _ \<Rightarrow> [])"

section \<open>Properties of envelopes\<close>

text \<open>The confidence of an envelope lies in the closed unit interval.\<close>

definition unit_confidence :: "AIResponse \<Rightarrow> bool" where
  "unit_confidence r = (0 \<le> confidence r \<and> confidence r \<le> 1)"

text \<open>An envelope that records a failure: the message, no confidence, no cost.\<close>

definition failed_with :: "string \<Rightarrow> AIResponse \<Rightarrow> bool" where
  "failed_with msg r = (error r = Some msg \<and> confidence r = 0 \<and> cost_usd r = 0)"

text \<open>
  An envelope either has no error or is a failure envelope without confidence and cost.
\<close>

definition recorded :: "AIResponse \<Rightarrow> bool" where
  "recorded r =
     (case error r of None \<Rightarrow> True | Some msg \<Rightarrow> confidence r = 0 \<and> cost_usd r = 0)"

subsection \<open>Sample services\<close>

text \<open>
  A clock that advances a quarter of a second per reading, and two services whose provider
  refuses every request.
\<close>

definition demo_world :: world where
  "demo_world = \<lparr> clock = (\<lambda>n. 100 + real n / 4), ticks = 0, isoformat = (\<lambda>t. ''2024-12-11T14:00:00'') \<rparr>"

definition failing_openai :: OpenAIVisionService where
  "failing_openai =
     \<lparr> openai_config = openai_init ''key'' ''gpt-4o'',
       openai_provider = GPT4_VISION,
       create = (\<lambda>req. Raises ''rate limit'') \<rparr>"

definition failing_gemini :: GeminiService where
  "failing_gemini =
     \<lparr> gemini_config = gemini_init ''key'' ''gemini-2.0-flash-exp'',
       gemini_provider = GEMINI_FLASH,
       b64decode = (\<lambda>s. Returns s),
       requests_get = (\<lambda>url. Returns ''jpeg''),
       generate_content = (\<lambda>req. Raises ''rate limit''),
       send_message = (\<lambda>history m. Raises ''rate limit'') \<rparr>"

subsection \<open>Reading an answer\<close>

text \<open>The entry of the \<^verbatim>\<open>ai_metadata\<close> block of an answer under a key.\<close>

definition metadata_field :: "string \<Rightarrow> pyval \<Rightarrow> pyval option" where
  "metadata_field k answer =
     (case answer of
        PDict d \<Rightarrow> (case map_of d ''ai_metadata'' of Some (PDict m) \<Rightarrow> map_of m k | _ \<Rightarrow> None)
      | _ \<Rightarrow> None)"

text \<open>The adapters that the calls of a run went to, in order.\<close>

definition call_targets :: "'a \<times> adapter_call list \<times> world \<Rightarrow> AIProvider list" where
  "call_targets run = map call_target (fst (snd run))"

subsection \<open>Stub adapters\<close>

text \<open>
  An adapter object that answers every operation with one fixed envelope, as a mock in a
  test does.
\<close>

definition stub_envelope :: "AIProvider \<Rightarrow> real \<Rightarrow> string \<Rightarrow> AIResponse" where
  "stub_envelope prov conf txt =
     \<lparr> provider = prov, model = ''stub'', content = txt, confidence = conf,
       tokens_used = (if prov = GEMINI_FLASH then 100 else 700),
       cost_usd = (if prov = GEMINI_FLASH then 0.0001 else 0.02),
       response_time_ms = 250, timestamp = 0, metadata = None, error = None \<rparr>"

definition stub_service :: "AIResponse \<Rightarrow> BaseAIService" where
  "stub_service r =
     \<lparr> analyze_image = (\<lambda>image_url prompt kwargs w. (r, w)),
       generate_text = (\<lambda>prompt context kwargs w. (r, w)),
       chat = (\<lambda>messages kwargs w. (r, w)) \<rparr>"

definition stub_analyzer :: "real \<Rightarrow> real \<Rightarrow> MealAnalyzer" where
  \<open>stub_analyzer gemini_conf gpt4_conf =
     \<lparr> gemini = stub_service (stub_envelope GEMINI_FLASH gemini_conf
                  ''{"nutrition": {"calories": 300}}''),
       gpt4 = stub_service (stub_envelope GPT4_VISION gpt4_conf
                  ''{"nutrition": {"calories": 520}}''),
       default_provider = GEMINI_FLASH \<rparr>\<close>

text \<open>The same entry of what \<^verbatim>\<open>analyze_meal\<close> produced; none when it raised.\<close>

definition answer_field :: "string \<Rightarrow> pyerror + pyval \<Rightarrow> pyval option" where
  "answer_field k x = (case x of Inl e \<Rightarrow> None | Inr answer \<Rightarrow> metadata_field k answer)"

text \<open>The analyzer built on the two services that refuse every request.\<close>

definition failing_analyzer :: MealAnalyzer where
  "failing_analyzer = MealAnalyzer_init failing_gemini failing_openai"

subsection \<open>Sample texts and analyzers\<close>

text \<open>
  A reply in prose with the numbers before the nutrient names, one with the numbers
  after them, and an analyzer whose Gemini adapter is a mock that replies with a quick
  estimate.
\<close>

definition malformed_output :: string where
  "malformed_output =
     ''This meal has about 450 calories and 30g protein, not much else detected.''"

definition labelled_output :: string where
  "labelled_output = ''Calories: 450, protein: 30g, not much else detected.''"

definition mock_quick_analyzer :: MealAnalyzer where
  \<open>mock_quick_analyzer =
     \<lparr> gemini = stub_service (stub_envelope GEMINI_FLASH 0.8
                  ''{"calories": 410, "description": "turkey sandwich"}''),
       gpt4 = stub_service (stub_envelope GPT4_VISION 0.9 []),
       default_provider = GEMINI_FLASH \<rparr>\<close>

text \<open>The seven keys of the metadata block of \<^verbatim>\<open>analyze_meal\<close>.\<close>

definition full_metadata_keys :: "string list" where
  "full_metadata_keys =
     [''provider'', ''model'', ''confidence'', ''cost_usd'', ''response_time_ms'',
      ''tokens_used'', ''error'']"

section \<open>The confidence heuristic stays in range\<close>

lemma phrase_fold_le:
  "foldl (\<lambda>c phrase. if py_in phrase low then c - 0.1 else c) (c0::real) ps \<le> c0"
proof (induction ps arbitrary: c0)
  case Nil
  show ?case by simp
next
  case (Cons p ps)
  have "foldl (\<lambda>c phrase. if py_in phrase low then c - 0.1 else c)
          (if py_in p low then c0 - 0.1 else c0) ps
        \<le> (if py_in p low then c0 - 0.1 else c0)"
    by (rule Cons.IH)
  also have "\<dots> \<le> c0" by simp
  finally show ?case by simp
qed

lemma assess_confidence_range: "0 \<le> assess_confidence t \<and> assess_confidence t \<le> 0.85"
proof -
  define c1 where "c1 = foldl (\<lambda>c phrase. if py_in phrase (py_lower t) then c - 0.1 else c)
               (0.8::real) uncertainty_phrases"
  have "c1 \<le> 0.8"
    unfolding c1_def by (rule phrase_fold_le)
  moreover have "assess_confidence t = max 0 (min 1 (if 200 < length t then c1 + 0.05 else c1))"
    by (simp add: assess_confidence_def Let_def c1_def)
  ultimately show ?thesis
    by (simp add: max_def min_def)
qed

lemma failure_envelope_fields:
  "error (fst (failure_envelope prov cfg st msg w)) = Some msg"
  "confidence (fst (failure_envelope prov cfg st msg w)) = 0"
  "cost_usd (fst (failure_envelope prov cfg st msg w)) = 0"
  by (simp_all add: failure_envelope_def time_time_def)

lemma failure_envelope_unit: "unit_confidence (fst (failure_envelope prov cfg st msg w))"
  by (simp add: unit_confidence_def failure_envelope_fields)

lemma openai_analyze_image_unit:
  "unit_confidence (fst (openai_analyze_image p url prompt kwargs w))"
proof -
  have a: "0 \<le> min 1 (assess_confidence c + 0.05) \<and> min 1 (assess_confidence c + 0.05) \<le> 1" for c
    using assess_confidence_range [of c] by simp
  show ?thesis
    using a
    by (auto simp: openai_analyze_image_def Let_def failure_envelope_fields unit_confidence_def
        split: prod.splits outcome.splits sum.splits)
qed

lemma openai_text_envelope_unit:
  "unit_confidence (fst (openai_text_envelope p msgs kwargs b w))"
proof -
  have a: "0 \<le> assess_confidence c + 0.05 \<and> assess_confidence c + 0.05 \<le> 1" for c
    using assess_confidence_range [of c] by simp
  show ?thesis
    using a
    by (auto simp: openai_text_envelope_def Let_def failure_envelope_fields unit_confidence_def
        split: prod.splits outcome.splits sum.splits)
qed

lemma gemini_envelope_unit:
  "unit_confidence (fst (gemini_envelope g st prompt sur b resp w))"
proof -
  have a: "0 \<le> assess_confidence c \<and> assess_confidence c \<le> 1" for c
    using assess_confidence_range [of c] by simp
  show ?thesis
    using a
    by (auto simp: gemini_envelope_def Let_def failure_envelope_fields unit_confidence_def
        split: prod.splits outcome.splits sum.splits)
qed

lemma gemini_analyze_image_unit:
  "unit_confidence (fst (gemini_analyze_image g url prompt kwargs w))"
  by (auto simp: gemini_analyze_image_def Let_def failure_envelope_unit gemini_envelope_unit
      split: prod.splits outcome.splits)

lemma gemini_generate_text_unit:
  "unit_confidence (fst (gemini_generate_text g prompt ctx kwargs w))"
  by (auto simp: gemini_generate_text_def Let_def failure_envelope_unit gemini_envelope_unit
      split: prod.splits outcome.splits)

lemma gemini_chat_unit:
  "unit_confidence (fst (gemini_chat g msgs kwargs w))"
proof -
  have a: "0 \<le> assess_confidence c \<and> assess_confidence c \<le> 1" for c
    using assess_confidence_range [of c] by simp
  show ?thesis
    using a
    by (auto simp: gemini_chat_def Let_def failure_envelope_fields unit_confidence_def
        split: prod.splits outcome.splits sum.splits option.splits)
qed

text \<open>
  Claim C3. Whatever the provider answers and whatever the clock shows, the envelope that
  any of the six adapter operations returns has a confidence between 0 and 1: a failure
  envelope has confidence 0, Gemini passes the clamped heuristic on, and the OpenAI
  adapter adds 0.05 to a heuristic that never exceeds 0.85.
\<close>

theorem confidence_in_unit_interval:
  "unit_confidence (fst (gemini_analyze_image g image_url prompt kwargs w))
   \<and> unit_confidence (fst (gemini_generate_text g prompt context kwargs w))
   \<and> unit_confidence (fst (gemini_chat g messages kwargs w))
   \<and> unit_confidence (fst (openai_analyze_image p image_url prompt kwargs w))
   \<and> unit_confidence (fst (openai_generate_text p prompt context kwargs w))
   \<and> unit_confidence (fst (openai_chat p messages kwargs w))"
  by (simp add: gemini_analyze_image_unit gemini_generate_text_unit gemini_chat_unit
      openai_analyze_image_unit openai_text_envelope_unit
      openai_generate_text_def openai_chat_def Let_def)

section \<open>Failures stay inside the envelope\<close>

lemma failure_envelope_failed: "failed_with msg (fst (failure_envelope prov cfg st msg w))"
  by (simp add: failed_with_def failure_envelope_fields)

lemma failure_envelope_recorded: "recorded (fst (failure_envelope prov cfg st msg w))"
  by (simp add: recorded_def failure_envelope_fields)

lemma openai_image_failed:
  assumes "create p (openai_request p (image_messages image_url prompt kwargs) kwargs) = Raises msg"
  shows "failed_with msg (fst (openai_analyze_image p image_url prompt kwargs w))"
  using assms
  by (simp add: openai_analyze_image_def Let_def failure_envelope_failed split_beta)

lemma openai_text_envelope_failed:
  assumes "create p (openai_request p ms kwargs) = Raises msg"
  shows "failed_with msg (fst (openai_text_envelope p ms kwargs b w))"
  using assms
  by (simp add: openai_text_envelope_def failure_envelope_failed split_beta)

lemma gemini_fetch_failed:
  assumes "gemini_image_bytes g image_url = Raises msg"
  shows "failed_with msg (fst (gemini_analyze_image g image_url prompt kwargs w))"
  using assms
  by (simp add: gemini_analyze_image_def failure_envelope_failed split_beta)

lemma gemini_image_failed:
  assumes "gemini_image_bytes g image_url = Returns image_bytes"
    and "generate_content g (image_request g prompt image_bytes kwargs) = Raises msg"
  shows "failed_with msg (fst (gemini_analyze_image g image_url prompt kwargs w))"
  using assms
  by (simp add: gemini_analyze_image_def failure_envelope_failed split_beta)

lemma gemini_text_failed:
  assumes "generate_content g (text_request g (full_prompt_of prompt context) kwargs) = Raises msg"
  shows "failed_with msg (fst (gemini_generate_text g prompt context kwargs w))"
  using assms
  by (simp add: gemini_generate_text_def Let_def failure_envelope_failed split_beta)

lemma gemini_chat_failed:
  assumes "gemini_history (butlast messages) = Inr history"
    and "messages \<noteq> []"
    and "map_of (last messages) ''content'' = Some last_message"
    and "send_message g (PList history) last_message = Raises msg"
  shows "failed_with msg (fst (gemini_chat g messages kwargs w))"
  using assms
  by (simp add: gemini_chat_def failure_envelope_failed split_beta)

lemma openai_image_recorded: "recorded (fst (openai_analyze_image p image_url prompt kwargs w))"
  by (auto simp: openai_analyze_image_def Let_def failure_envelope_fields recorded_def
      split: prod.splits outcome.splits sum.splits)

lemma openai_text_envelope_recorded: "recorded (fst (openai_text_envelope p ms kwargs b w))"
  by (auto simp: openai_text_envelope_def failure_envelope_fields recorded_def
      split: prod.splits outcome.splits sum.splits)

lemma gemini_envelope_recorded: "recorded (fst (gemini_envelope g st prompt sur b resp w))"
  by (auto simp: gemini_envelope_def Let_def failure_envelope_fields recorded_def
      split: prod.splits outcome.splits)

lemma gemini_image_recorded: "recorded (fst (gemini_analyze_image g image_url prompt kwargs w))"
  by (auto simp: gemini_analyze_image_def failure_envelope_recorded gemini_envelope_recorded
      split: prod.splits outcome.splits)

lemma gemini_text_recorded: "recorded (fst (gemini_generate_text g prompt context kwargs w))"
  by (auto simp: gemini_generate_text_def Let_def failure_envelope_recorded
      gemini_envelope_recorded split: prod.splits outcome.splits)

lemma gemini_chat_recorded: "recorded (fst (gemini_chat g messages kwargs w))"
  by (auto simp: gemini_chat_def Let_def failure_envelope_fields recorded_def
      split: prod.splits outcome.splits sum.splits option.splits)

text \<open>
  Claim C4. Each of the six adapter operations is a total function to an envelope, so
  nothing but an envelope leaves it. When the call to the provider raises an exception,
  the envelope records it: its error field is the message of the exception, its
  confidence is 0 and its cost is 0. For the image analysis of the Gemini adapter the
  same holds when fetching the image raises. And whatever happens, an envelope whose
  error field is set has confidence 0 and cost 0.
\<close>

theorem provider_failure_is_enveloped:
  "(gemini_image_bytes g image_url = Raises msg
      \<longrightarrow> failed_with msg (fst (gemini_analyze_image g image_url prompt kwargs w)))
   \<and> (gemini_image_bytes g image_url = Returns image_bytes
        \<and> generate_content g (image_request g prompt image_bytes kwargs) = Raises msg
      \<longrightarrow> failed_with msg (fst (gemini_analyze_image g image_url prompt kwargs w)))
   \<and> (generate_content g (text_request g (full_prompt_of prompt ctx) kwargs) = Raises msg
      \<longrightarrow> failed_with msg (fst (gemini_generate_text g prompt ctx kwargs w)))
   \<and> (gemini_history (butlast messages) = Inr history \<and> messages \<noteq> []
        \<and> map_of (last messages) ''content'' = Some last_message
        \<and> send_message g (PList history) last_message = Raises msg
      \<longrightarrow> failed_with msg (fst (gemini_chat g messages kwargs w)))
   \<and> (create p (openai_request p (image_messages image_url prompt kwargs) kwargs) = Raises msg
      \<longrightarrow> failed_with msg (fst (openai_analyze_image p image_url prompt kwargs w)))
   \<and> (create p (openai_request p (text_messages prompt ctx) kwargs) = Raises msg
      \<longrightarrow> failed_with msg (fst (openai_generate_text p prompt ctx kwargs w)))
   \<and> (create p (openai_request p (chat_messages messages) kwargs) = Raises msg
      \<longrightarrow> failed_with msg (fst (openai_chat p messages kwargs w)))
   \<and> recorded (fst (gemini_analyze_image g image_url prompt kwargs w))
   \<and> recorded (fst (gemini_generate_text g prompt ctx kwargs w))
   \<and> recorded (fst (gemini_chat g messages kwargs w))
   \<and> recorded (fst (openai_analyze_image p image_url prompt kwargs w))
   \<and> recorded (fst (openai_generate_text p prompt ctx kwargs w))
   \<and> recorded (fst (openai_chat p messages kwargs w))"
  by (auto simp: gemini_fetch_failed gemini_image_failed gemini_text_failed gemini_chat_failed
      openai_image_failed openai_text_envelope_failed openai_generate_text_def openai_chat_def
      gemini_image_recorded gemini_text_recorded gemini_chat_recorded openai_image_recorded
      openai_text_envelope_recorded)

text \<open>
  The theorem at the two sample services: a data URL without a comma, for which the
  fetch raises, and requests that the provider refuses.
\<close>

theorem provider_failure_is_enveloped_witness:
  "failed_with index_error
     (fst (gemini_analyze_image failing_gemini ''data:image/jpeg'' ''Analyze'' [] demo_world))
   \<and> failed_with ''rate limit''
       (fst (gemini_analyze_image failing_gemini ''http://x/meal.jpg'' ''Analyze'' [] demo_world))
   \<and> failed_with ''rate limit''
       (fst (gemini_generate_text failing_gemini ''Analyze'' None [] demo_world))
   \<and> failed_with ''rate limit''
       (fst (gemini_chat failing_gemini [message ''user'' ''hello''] [] demo_world))
   \<and> failed_with ''rate limit''
       (fst (openai_analyze_image failing_openai ''http://x/meal.jpg'' ''Analyze'' [] demo_world))
   \<and> failed_with ''rate limit''
       (fst (openai_generate_text failing_openai ''Analyze'' None [] demo_world))
   \<and> failed_with ''rate limit''
       (fst (openai_chat failing_openai [message ''user'' ''hello''] [] demo_world))"
proof -
  have f: "gemini_image_bytes failing_gemini ''data:image/jpeg'' = Raises index_error"
    by (simp add: gemini_image_bytes_def)
  have b: "gemini_image_bytes failing_gemini ''http://x/meal.jpg'' = Returns ''jpeg''"
    by (simp add: gemini_image_bytes_def failing_gemini_def)
  have c: "generate_content failing_gemini req = Raises ''rate limit''" for req
    by (simp add: failing_gemini_def)
  have s: "send_message failing_gemini h m = Raises ''rate limit''" for h m
    by (simp add: failing_gemini_def)
  have o: "create failing_openai req = Raises ''rate limit''" for req
    by (simp add: failing_openai_def)
  have h: "gemini_history (butlast [message ''user'' ''hello'']) = Inr []"
    and l: "map_of (last [message ''user'' ''hello'']) ''content'' = Some ''hello''"
    by (simp_all add: message_def)
  note r = provider_failure_is_enveloped [where g = failing_gemini and p = failing_openai
             and prompt = "''Analyze''" and kwargs = "[]" and w = demo_world and ctx = None
             and messages = "[message ''user'' ''hello'']" and history = "[]"
             and last_message = "''hello''"]
  show ?thesis
    using r [where image_url = "''data:image/jpeg''" and msg = index_error]
      r [where image_url = "''http://x/meal.jpg''" and msg = "''rate limit''"
           and image_bytes = "''jpeg''"]
    by (simp add: f b c s o h l message_def)
qed

section \<open>Routing and escalation\<close>

lemma gemini_call_targets:
  "analyze_with_gemini self image_url w = (r, c, w') \<Longrightarrow> map call_target c = [GEMINI_FLASH]"
  by (auto simp: analyze_with_gemini_def Let_def split: prod.splits)

lemma gpt4_call_targets:
  "analyze_with_gpt4 self image_url w = (r, c, w') \<Longrightarrow> map call_target c = [GPT4_VISION]"
  by (auto simp: analyze_with_gpt4_def Let_def split: prod.splits)

lemma analyze_meal_parts:
  "route_meal self image_url user_tier force_provider w = (r, c, w')
   \<Longrightarrow> call_targets (analyze_meal self image_url user_tier force_provider w) = map call_target c
       \<and> fst (analyze_meal self image_url user_tier force_provider w) = fst (meal_answer r w')"
  by (simp add: analyze_meal_def call_targets_def split: prod.splits)

lemma route_escalates:
  assumes "analyze_with_gemini self image_url w = (r1, c1, w1)"
    and "analyze_with_gpt4 self image_url w1 = (r2, c2, w2)"
    and "select_provider user_tier force_provider = GEMINI_FLASH"
    and "confidence r1 < CONFIDENCE_THRESHOLD" and "user_tier = ''premium''"
  shows "route_meal self image_url user_tier force_provider w = (r2, c1 @ c2, w2)"
  using assms by (simp add: route_meal_def)

lemma route_stays:
  assumes "analyze_with_gemini self image_url w = (r1, c1, w1)"
    and "select_provider user_tier force_provider = GEMINI_FLASH"
    and "\<not> (confidence r1 < CONFIDENCE_THRESHOLD \<and> user_tier = ''premium'')"
  shows "route_meal self image_url user_tier force_provider w = (r1, c1, w1)"
  using assms by (auto simp: route_meal_def)

lemma route_direct:
  assumes "analyze_with_gpt4 self image_url w = (r3, c3, w3)"
    and "select_provider user_tier force_provider \<noteq> GEMINI_FLASH"
  shows "route_meal self image_url user_tier force_provider w = (r3, c3, w3)"
  using assms by (simp add: route_meal_def)

lemma meal_escalates:
  assumes "analyze_with_gemini self image_url w = (r1, c1, w1)"
    and "analyze_with_gpt4 self image_url w1 = (r2, c2, w2)"
    and "select_provider user_tier force_provider = GEMINI_FLASH"
    and "confidence r1 < CONFIDENCE_THRESHOLD" and "user_tier = ''premium''"
  shows "call_targets (analyze_meal self image_url user_tier force_provider w)
           = [GEMINI_FLASH, GPT4_VISION]
         \<and> fst (analyze_meal self image_url user_tier force_provider w) = fst (meal_answer r2 w2)"
  using analyze_meal_parts [OF route_escalates [OF assms]]
    gemini_call_targets [OF assms(1)] gpt4_call_targets [OF assms(2)]
  by simp

lemma meal_stays:
  assumes "analyze_with_gemini self image_url w = (r1, c1, w1)"
    and "select_provider user_tier force_provider = GEMINI_FLASH"
    and "\<not> (confidence r1 < CONFIDENCE_THRESHOLD \<and> user_tier = ''premium'')"
  shows "call_targets (analyze_meal self image_url user_tier force_provider w) = [GEMINI_FLASH]
         \<and> fst (analyze_meal self image_url user_tier force_provider w) = fst (meal_answer r1 w1)"
  using analyze_meal_parts [OF route_stays [OF assms]] gemini_call_targets [OF assms(1)]
  by simp

lemma meal_direct:
  assumes "analyze_with_gpt4 self image_url w = (r3, c3, w3)"
    and "select_provider user_tier force_provider \<noteq> GEMINI_FLASH"
  shows "call_targets (analyze_meal self image_url user_tier force_provider w) = [GPT4_VISION]
         \<and> fst (analyze_meal self image_url user_tier force_provider w) = fst (meal_answer r3 w3)"
  using analyze_meal_parts [OF route_direct [OF assms]] gpt4_call_targets [OF assms(1)]
  by simp

text \<open>
  Claim C1, as the code has it. Let the first call go to the Gemini adapter, which is the
  case when the selected provider is \<open>GEMINI_FLASH\<close>. If its envelope has a confidence
  below 0.7 and the tier is premium, exactly one more call is made, to the GPT-4 Vision
  adapter, and the answer is built from that second envelope. If the confidence is at
  least 0.7, or the tier is not premium, no second call is made. When the selected
  provider is not Gemini, as for a premium caller who forces nothing, the one call goes
  to GPT-4 Vision and no other follows, whatever its confidence.
\<close>

theorem escalation_rule:
  assumes g: "analyze_with_gemini self image_url w = (r1, c1, w1)"
    and e: "analyze_with_gpt4 self image_url w1 = (r2, c2, w2)"
    and d: "analyze_with_gpt4 self image_url w = (r3, c3, w3)"
  shows "(select_provider user_tier force_provider = GEMINI_FLASH
            \<and> confidence r1 < 0.7 \<and> user_tier = ''premium''
          \<longrightarrow> call_targets (analyze_meal self image_url user_tier force_provider w)
                = [GEMINI_FLASH, GPT4_VISION]
              \<and> fst (analyze_meal self image_url user_tier force_provider w)
                = fst (meal_answer r2 w2))
       \<and> (select_provider user_tier force_provider = GEMINI_FLASH
            \<and> (0.7 \<le> confidence r1 \<or> user_tier \<noteq> ''premium'')
          \<longrightarrow> call_targets (analyze_meal self image_url user_tier force_provider w)
                = [GEMINI_FLASH]
              \<and> fst (analyze_meal self image_url user_tier force_provider w)
                = fst (meal_answer r1 w1))
       \<and> (select_provider user_tier force_provider \<noteq> GEMINI_FLASH
          \<longrightarrow> call_targets (analyze_meal self image_url user_tier force_provider w)
                = [GPT4_VISION]
              \<and> fst (analyze_meal self image_url user_tier force_provider w)
                = fst (meal_answer r3 w3))"
proof (intro conjI impI)
  assume a: "select_provider user_tier force_provider = GEMINI_FLASH
             \<and> confidence r1 < 0.7 \<and> user_tier = ''premium''"
  then have s: "select_provider user_tier force_provider = GEMINI_FLASH"
    and c: "confidence r1 < CONFIDENCE_THRESHOLD" and t: "user_tier = ''premium''"
    by (auto simp: CONFIDENCE_THRESHOLD_def)
  show "call_targets (analyze_meal self image_url user_tier force_provider w)
                = [GEMINI_FLASH, GPT4_VISION]"
    and "fst (analyze_meal self image_url user_tier force_provider w) = fst (meal_answer r2 w2)"
    using meal_escalates [OF g e s c t] by simp_all
next
  assume a: "select_provider user_tier force_provider = GEMINI_FLASH
             \<and> (0.7 \<le> confidence r1 \<or> user_tier \<noteq> ''premium'')"
  then have s: "select_provider user_tier force_provider = GEMINI_FLASH"
    and n: "\<not> (confidence r1 < CONFIDENCE_THRESHOLD \<and> user_tier = ''premium'')"
    by (auto simp: CONFIDENCE_THRESHOLD_def)
  show "call_targets (analyze_meal self image_url user_tier force_provider w)
                = [GEMINI_FLASH]"
    and "fst (analyze_meal self image_url user_tier force_provider w) = fst (meal_answer r1 w1)"
    using meal_stays [OF g s n] by simp_all
next
  assume a: "select_provider user_tier force_provider \<noteq> GEMINI_FLASH"
  show "call_targets (analyze_meal self image_url user_tier force_provider w)
                = [GPT4_VISION]"
    and "fst (analyze_meal self image_url user_tier force_provider w) = fst (meal_answer r3 w3)"
    using meal_direct [OF d a] by simp_all
qed

text \<open>Runs of the stub analyzer.\<close>

lemma stub_gemini_run:
  "analyze_with_gemini (stub_analyzer a b) u w
   = (stub_envelope GEMINI_FLASH a ''{\"nutrition\": {\"calories\": 300}}'',
      [AdapterCall GEMINI_FLASH u get_analysis_prompt []], w)"
  by (simp add: analyze_with_gemini_def stub_analyzer_def stub_service_def)

lemma stub_gpt4_run:
  "analyze_with_gpt4 (stub_analyzer a b) u w
   = (stub_envelope GPT4_VISION b ''{\"nutrition\": {\"calories\": 520}}'',
      [AdapterCall GPT4_VISION u get_analysis_prompt [(''detail'', PStr ''high'')]], w)"
  by (simp add: analyze_with_gpt4_def stub_analyzer_def stub_service_def)

lemma parse_stub_520: "parse_nutrition ''{\"nutrition\": {\"calories\": 520}}'' =
   Inr \<lparr> calories = Fin 520, protein_g = Fin 0, carbs_g = Fin 0, fat_g = Fin 0,
     fiber_g = None, sugar_g = None, sodium_mg = None, ingredients = [],
     portions = Some [], meal_type = None, parse_confidence = Fin 0.8, notes_text = Some [] \<rparr>"
  by code_simp

text \<open>The rule on four runs: escalated, confident, free tier, premium by default.\<close>

theorem escalation_rule_witness:
  "call_targets (analyze_meal (stub_analyzer 0.45 0.92) ''meal.jpg'' ''premium'' (Some GEMINI_FLASH) demo_world)
     = [GEMINI_FLASH, GPT4_VISION]
   \<and> call_targets (analyze_meal (stub_analyzer 0.9 0.92) ''meal.jpg'' ''premium'' (Some GEMINI_FLASH) demo_world)
     = [GEMINI_FLASH]
   \<and> call_targets (analyze_meal (stub_analyzer 0.45 0.92) ''meal.jpg'' ''free'' None demo_world)
     = [GEMINI_FLASH]
   \<and> call_targets (analyze_meal (stub_analyzer 0.45 0.5) ''meal.jpg'' ''premium'' None demo_world)
     = [GPT4_VISION]"
proof -
  have 1: "call_targets (analyze_meal (stub_analyzer 0.45 0.92) ''meal.jpg'' ''premium''
             (Some GEMINI_FLASH) demo_world) = [GEMINI_FLASH, GPT4_VISION]"
    using escalation_rule [OF stub_gemini_run [of "0.45" "0.92" "''meal.jpg''" demo_world]
            stub_gpt4_run stub_gpt4_run, where user_tier = "''premium''"
            and force_provider = "Some GEMINI_FLASH"]
    by (simp add: select_provider_def stub_envelope_def)
  have 2: "call_targets (analyze_meal (stub_analyzer 0.9 0.92) ''meal.jpg'' ''premium''
             (Some GEMINI_FLASH) demo_world) = [GEMINI_FLASH]"
    using escalation_rule [OF stub_gemini_run [of "0.9" "0.92" "''meal.jpg''" demo_world]
            stub_gpt4_run stub_gpt4_run, where user_tier = "''premium''"
            and force_provider = "Some GEMINI_FLASH"]
    by (simp add: select_provider_def stub_envelope_def)
  have 3: "call_targets (analyze_meal (stub_analyzer 0.45 0.92) ''meal.jpg'' ''free''
             None demo_world) = [GEMINI_FLASH]"
    using escalation_rule [OF stub_gemini_run [of "0.45" "0.92" "''meal.jpg''" demo_world]
            stub_gpt4_run stub_gpt4_run, where user_tier = "''free''"
            and force_provider = None]
    by (simp add: select_provider_def stub_envelope_def)
  have 4: "call_targets (analyze_meal (stub_analyzer 0.45 0.5) ''meal.jpg'' ''premium''
             None demo_world) = [GPT4_VISION]"
    using escalation_rule [OF stub_gemini_run [of "0.45" "0.5" "''meal.jpg''" demo_world]
            stub_gpt4_run stub_gpt4_run, where user_tier = "''premium''"
            and force_provider = None]
    by (simp add: select_provider_def stub_envelope_def)
  show ?thesis
    using 1 2 3 4 by simp
qed

text \<open>
  The claim as stated fails for a premium caller who forces no provider: the first call
  goes to GPT-4 Vision, its envelope has confidence 0.5, and no further call is made.
\<close>

theorem premium_primary_not_escalated:
  "confidence (fst (analyze_with_gpt4 (stub_analyzer 0.45 0.5) ''meal.jpg'' demo_world)) < 0.7
   \<and> select_provider ''premium'' None = GPT4_VISION
   \<and> call_targets (analyze_meal (stub_analyzer 0.45 0.5) ''meal.jpg'' ''premium'' None demo_world)
     = [GPT4_VISION]"
  by (simp add: stub_gpt4_run stub_envelope_def select_provider_def analyze_meal_def
      route_meal_def call_targets_def split: prod.splits)

section \<open>A forced provider\<close>

text \<open>
  Claim C5, as the code has it. The selection returns a forced provider for every tier.
  Forced to GPT-4 Vision, the analyzer makes one call, to that adapter, and answers from
  its envelope, for every tier. Forced to Gemini, the first call goes to Gemini for every
  tier, and the escalation rule still applies to its envelope: below 0.7 on the premium
  tier the answer comes from a second call, to GPT-4 Vision; otherwise from Gemini.
\<close>

theorem forced_provider_rule:
  assumes g: "analyze_with_gemini self image_url w = (r1, c1, w1)"
    and e: "analyze_with_gpt4 self image_url w1 = (r2, c2, w2)"
    and d: "analyze_with_gpt4 self image_url w = (r3, c3, w3)"
  shows "select_provider user_tier (Some q) = q
       \<and> call_targets (analyze_meal self image_url user_tier (Some GPT4_VISION) w) = [GPT4_VISION]
       \<and> fst (analyze_meal self image_url user_tier (Some GPT4_VISION) w) = fst (meal_answer r3 w3)
       \<and> (confidence r1 < 0.7 \<and> user_tier = ''premium''
          \<longrightarrow> call_targets (analyze_meal self image_url user_tier (Some GEMINI_FLASH) w)
                = [GEMINI_FLASH, GPT4_VISION]
              \<and> fst (analyze_meal self image_url user_tier (Some GEMINI_FLASH) w)
                = fst (meal_answer r2 w2))
       \<and> (0.7 \<le> confidence r1 \<or> user_tier \<noteq> ''premium''
          \<longrightarrow> call_targets (analyze_meal self image_url user_tier (Some GEMINI_FLASH) w)
                = [GEMINI_FLASH]
              \<and> fst (analyze_meal self image_url user_tier (Some GEMINI_FLASH) w)
                = fst (meal_answer r1 w1))"
proof -
  have sel: "select_provider user_tier (Some p) = p" for p
    by (simp add: select_provider_def)
  have "select_provider user_tier (Some GPT4_VISION) \<noteq> GEMINI_FLASH"
    by (simp add: sel)
  note direct = meal_direct [OF d this]
  have low: "call_targets (analyze_meal self image_url user_tier (Some GEMINI_FLASH) w)
                = [GEMINI_FLASH, GPT4_VISION]
              \<and> fst (analyze_meal self image_url user_tier (Some GEMINI_FLASH) w)
                = fst (meal_answer r2 w2)"
    if "confidence r1 < 0.7 \<and> user_tier = ''premium''"
  proof -
    from that have c: "confidence r1 < CONFIDENCE_THRESHOLD" and t: "user_tier = ''premium''"
      by (auto simp: CONFIDENCE_THRESHOLD_def)
    show ?thesis
      by (rule meal_escalates [OF g e sel c t])
  qed
  have high: "call_targets (analyze_meal self image_url user_tier (Some GEMINI_FLASH) w)
                = [GEMINI_FLASH]
              \<and> fst (analyze_meal self image_url user_tier (Some GEMINI_FLASH) w)
                = fst (meal_answer r1 w1)"
    if "0.7 \<le> confidence r1 \<or> user_tier \<noteq> ''premium''"
  proof -
    from that have n: "\<not> (confidence r1 < CONFIDENCE_THRESHOLD \<and> user_tier = ''premium'')"
      by (auto simp: CONFIDENCE_THRESHOLD_def)
    show ?thesis
      by (rule meal_stays [OF g sel n])
  qed
  show ?thesis
    using sel direct low high by blast
qed

lemma stub_answer_520:
  "fst (meal_answer (stub_envelope GPT4_VISION c ''{\"nutrition\": {\"calories\": 520}}'') w)
   = Inr (PDict
       [(''nutrition'', model_dump
           \<lparr> calories = Fin 520, protein_g = Fin 0, carbs_g = Fin 0, fat_g = Fin 0,
             fiber_g = None, sugar_g = None, sodium_mg = None, ingredients = [],
             portions = Some [], meal_type = None, parse_confidence = Fin 0.8,
             notes_text = Some [] \<rparr>),
        (''ai_metadata'',
           PDict [(''provider'', PStr ''gpt4-vision''),
                  (''model'', PStr ''stub''),
                  (''confidence'', PFloat (Fin c)),
                  (''cost_usd'', PFloat (Fin 0.02)),
                  (''response_time_ms'', PInt 250),
                  (''tokens_used'', PInt 700),
                  (''error'', PNone)]),
        (''analyzed_at'', PStr (isoformat w (clock w (ticks w))))])"
  by (simp add: meal_answer_def stub_envelope_def parse_stub_520 time_time_def)

text \<open>The rule on the stub analyzer.\<close>

theorem forced_provider_rule_witness:
  "select_provider ''free'' (Some GPT4_VISION) = GPT4_VISION
   \<and> call_targets (analyze_meal (stub_analyzer 0.45 0.92) ''meal.jpg'' ''free''
        (Some GPT4_VISION) demo_world) = [GPT4_VISION]
   \<and> call_targets (analyze_meal (stub_analyzer 0.45 0.92) ''meal.jpg'' ''premium''
        (Some GEMINI_FLASH) demo_world) = [GEMINI_FLASH, GPT4_VISION]
   \<and> call_targets (analyze_meal (stub_analyzer 0.45 0.92) ''meal.jpg'' ''free''
        (Some GEMINI_FLASH) demo_world) = [GEMINI_FLASH]"
proof -
  note r = forced_provider_rule [OF stub_gemini_run [of "0.45" "0.92" "''meal.jpg''" demo_world]
             stub_gpt4_run stub_gpt4_run]
  show ?thesis
    using r [where user_tier = "''free''" and q = GPT4_VISION] r [where user_tier = "''premium''"]
    by (simp add: stub_envelope_def)
qed

text \<open>
  The claim as stated fails when Gemini is forced on the premium tier and answers with
  confidence 0.45: the answer that comes back was produced by GPT-4 Vision.
\<close>

theorem forced_gemini_answered_by_gpt4:
  "answer_field ''provider''
     (fst (analyze_meal (stub_analyzer 0.45 0.92) ''meal.jpg'' ''premium''
             (Some GEMINI_FLASH) demo_world))
   = Some (PStr ''gpt4-vision'')"
proof -
  have "fst (analyze_meal (stub_analyzer 0.45 0.92) ''meal.jpg'' ''premium''
               (Some GEMINI_FLASH) demo_world)
        = fst (meal_answer (stub_envelope GPT4_VISION 0.92 ''{\"nutrition\": {\"calories\": 520}}'')
                 demo_world)"
    using meal_escalates [OF stub_gemini_run [of "0.45" "0.92" "''meal.jpg''" demo_world]
            stub_gpt4_run, where user_tier = "''premium''" and force_provider = "Some GEMINI_FLASH"]
    by (simp add: select_provider_def stub_envelope_def CONFIDENCE_THRESHOLD_def)
  then show ?thesis
    by (simp add: stub_answer_520 metadata_field_def answer_field_def)
qed

section \<open>A first call that fails\<close>

lemma parse_nutrition_empty: "parse_nutrition [] = Inr (parse_natural_language [])"
  by code_simp

lemma failed_answer:
  assumes "failed_with msg r" and "content r = []"
  shows "answer_field ''error'' (fst (meal_answer r w)) = Some (PStr msg)"
  using assms
  by (simp add: meal_answer_def parse_nutrition_empty failed_with_def metadata_field_def
      answer_field_def split: prod.splits)

text \<open>
  Claim C6, as the code has it. Let the first call end in a failure envelope (error set,
  confidence 0, empty content, as the adapters build it). If it went to Gemini and the
  tier is not premium, or if it went to GPT-4 Vision, no other call is made and the
  answer carries that envelope's metadata, its error included. If it went to Gemini and
  the tier is premium, the confidence 0 is below the threshold and one escalation call to
  GPT-4 Vision is made, whose envelope is answered from.
\<close>

theorem primary_error_rule:
  assumes g: "analyze_with_gemini self image_url w = (r1, c1, w1)"
    and e: "analyze_with_gpt4 self image_url w1 = (r2, c2, w2)"
    and d: "analyze_with_gpt4 self image_url w = (r3, c3, w3)"
  shows "(select_provider user_tier force_provider = GEMINI_FLASH
            \<and> failed_with msg r1 \<and> content r1 = [] \<and> user_tier \<noteq> ''premium''
          \<longrightarrow> call_targets (analyze_meal self image_url user_tier force_provider w)
                = [GEMINI_FLASH]
              \<and> fst (analyze_meal self image_url user_tier force_provider w)
                = fst (meal_answer r1 w1)
              \<and> answer_field ''error'' (fst (analyze_meal self image_url user_tier force_provider w))
                = Some (PStr msg))
       \<and> (select_provider user_tier force_provider \<noteq> GEMINI_FLASH
            \<and> failed_with msg r3 \<and> content r3 = []
          \<longrightarrow> call_targets (analyze_meal self image_url user_tier force_provider w)
                = [GPT4_VISION]
              \<and> fst (analyze_meal self image_url user_tier force_provider w)
                = fst (meal_answer r3 w3)
              \<and> answer_field ''error'' (fst (analyze_meal self image_url user_tier force_provider w))
                = Some (PStr msg))
       \<and> (select_provider user_tier force_provider = GEMINI_FLASH
            \<and> failed_with msg r1 \<and> user_tier = ''premium''
          \<longrightarrow> call_targets (analyze_meal self image_url user_tier force_provider w)
                = [GEMINI_FLASH, GPT4_VISION]
              \<and> fst (analyze_meal self image_url user_tier force_provider w)
                = fst (meal_answer r2 w2))"
proof (intro conjI impI)
  assume a: "select_provider user_tier force_provider = GEMINI_FLASH
             \<and> failed_with msg r1 \<and> content r1 = [] \<and> user_tier \<noteq> ''premium''"
  then have s: "select_provider user_tier force_provider = GEMINI_FLASH"
    and n: "\<not> (confidence r1 < CONFIDENCE_THRESHOLD \<and> user_tier = ''premium'')"
    by auto
  note m = meal_stays [OF g s n]
  from m show "call_targets (analyze_meal self image_url user_tier force_provider w)
                = [GEMINI_FLASH]"
    and "fst (analyze_meal self image_url user_tier force_provider w) = fst (meal_answer r1 w1)"
    by simp_all
  from a m failed_answer [of msg r1 w1]
  show "answer_field ''error'' (fst (analyze_meal self image_url user_tier force_provider w))
          = Some (PStr msg)"
    by simp
next
  assume a: "select_provider user_tier force_provider \<noteq> GEMINI_FLASH
             \<and> failed_with msg r3 \<and> content r3 = []"
  then have s: "select_provider user_tier force_provider \<noteq> GEMINI_FLASH"
    by simp
  note m = meal_direct [OF d s]
  from m show "call_targets (analyze_meal self image_url user_tier force_provider w)
                = [GPT4_VISION]"
    and "fst (analyze_meal self image_url user_tier force_provider w) = fst (meal_answer r3 w3)"
    by simp_all
  from a m failed_answer [of msg r3 w3]
  show "answer_field ''error'' (fst (analyze_meal self image_url user_tier force_provider w))
          = Some (PStr msg)"
    by simp
next
  assume a: "select_provider user_tier force_provider = GEMINI_FLASH
             \<and> failed_with msg r1 \<and> user_tier = ''premium''"
  then have s: "select_provider user_tier force_provider = GEMINI_FLASH"
    and c: "confidence r1 < CONFIDENCE_THRESHOLD" and t: "user_tier = ''premium''"
    by (auto simp: failed_with_def CONFIDENCE_THRESHOLD_def)
  show "call_targets (analyze_meal self image_url user_tier force_provider w)
                = [GEMINI_FLASH, GPT4_VISION]"
    and "fst (analyze_meal self image_url user_tier force_provider w) = fst (meal_answer r2 w2)"
    using meal_escalates [OF g e s c t] by simp_all
qed

lemma triple_eta: "x = (fst x, fst (snd x), snd (snd x))"
  by simp

lemma failure_envelope_content: "content (fst (failure_envelope prov cfg st msg w)) = []"
  by (simp add: failure_envelope_def time_time_def)

lemma failing_gemini_run:
  "failed_with ''rate limit'' (fst (analyze_with_gemini failing_analyzer ''http://x/meal.jpg'' w))
   \<and> content (fst (analyze_with_gemini failing_analyzer ''http://x/meal.jpg'' w)) = []"
  by (simp add: analyze_with_gemini_def failing_analyzer_def MealAnalyzer_init_def
      gemini_object_def gemini_analyze_image_def gemini_image_bytes_def failing_gemini_def
      failure_envelope_failed failure_envelope_content split_beta)

lemma failing_gpt4_run:
  "failed_with ''rate limit'' (fst (analyze_with_gpt4 failing_analyzer u w))
   \<and> content (fst (analyze_with_gpt4 failing_analyzer u w)) = []"
  by (simp add: analyze_with_gpt4_def failing_analyzer_def MealAnalyzer_init_def
      openai_object_def openai_analyze_image_def failing_openai_def Let_def
      failure_envelope_failed failure_envelope_content split_beta)

text \<open>The rule on the analyzer whose two providers refuse every request.\<close>

theorem primary_error_rule_witness:
  "call_targets (analyze_meal failing_analyzer ''http://x/meal.jpg'' ''free'' None demo_world)
     = [GEMINI_FLASH]
   \<and> answer_field ''error''
       (fst (analyze_meal failing_analyzer ''http://x/meal.jpg'' ''free'' None demo_world))
     = Some (PStr ''rate limit'')
   \<and> call_targets (analyze_meal failing_analyzer ''http://x/meal.jpg'' ''premium'' None demo_world)
     = [GPT4_VISION]
   \<and> answer_field ''error''
       (fst (analyze_meal failing_analyzer ''http://x/meal.jpg'' ''premium'' None demo_world))
     = Some (PStr ''rate limit'')
   \<and> call_targets (analyze_meal failing_analyzer ''http://x/meal.jpg'' ''premium''
        (Some GEMINI_FLASH) demo_world)
     = [GEMINI_FLASH, GPT4_VISION]"
proof -
  note r = primary_error_rule [OF triple_eta triple_eta triple_eta,
             where self = failing_analyzer and image_url = "''http://x/meal.jpg''"
               and w = demo_world and msg = "''rate limit''"]
  show ?thesis
    using r [where user_tier = "''free''" and force_provider = None]
      r [where user_tier = "''premium''" and force_provider = None]
      r [where user_tier = "''premium''" and force_provider = "Some GEMINI_FLASH"]
    by (simp add: select_provider_def failing_gemini_run failing_gpt4_run
        failed_answer [OF failing_gemini_run [THEN conjunct1] failing_gemini_run [THEN conjunct2]]
        failed_answer [OF failing_gpt4_run [THEN conjunct1] failing_gpt4_run [THEN conjunct2]])
qed

text \<open>
  The claim as stated fails when Gemini is forced on the premium tier and its provider
  refuses the request: the failure envelope is followed by a call to GPT-4 Vision.
\<close>

theorem failed_primary_is_escalated:
  "failed_with ''rate limit''
     (fst (analyze_with_gemini failing_analyzer ''http://x/meal.jpg'' demo_world))
   \<and> call_targets (analyze_meal failing_analyzer ''http://x/meal.jpg'' ''premium''
        (Some GEMINI_FLASH) demo_world)
     = [GEMINI_FLASH, GPT4_VISION]"
proof -
  have "confidence (fst (analyze_with_gemini failing_analyzer ''http://x/meal.jpg'' demo_world))
          < CONFIDENCE_THRESHOLD"
    using failing_gemini_run [of demo_world]
    by (simp add: failed_with_def CONFIDENCE_THRESHOLD_def)
  then show ?thesis
    using meal_escalates [OF triple_eta triple_eta, where self = failing_analyzer
            and image_url = "''http://x/meal.jpg''" and w = demo_world
            and user_tier = "''premium''" and force_provider = "Some GEMINI_FLASH"]
      failing_gemini_run [of demo_world]
    by (simp add: select_provider_def)
qed

section \<open>The cost of an escalated request\<close>

lemma meal_answer_fields:
  assumes "fst (meal_answer r w) = Inr answer"
  shows "metadata_field ''cost_usd'' answer = Some (PFloat (Fin (cost_usd r)))
       \<and> metadata_field ''tokens_used'' answer = Some (PInt (tokens_used r))"
  using assms
  by (auto simp: meal_answer_def metadata_field_def split: sum.splits prod.splits)

text \<open>
  Claim C10. When the analyzer escalates (the first call went to Gemini, its confidence is
  below 0.7, the tier is premium) and returns an answer, the \<^verbatim>\<open>cost_usd\<close> and
  \<^verbatim>\<open>tokens_used\<close> of its metadata are those of the second envelope, and the whole
  answer is the one built from the second envelope alone: nothing of the first call is
  in it.
\<close>

theorem escalated_cost_is_second_call:
  assumes g: "analyze_with_gemini self image_url w = (r1, c1, w1)"
    and e: "analyze_with_gpt4 self image_url w1 = (r2, c2, w2)"
    and s: "select_provider user_tier force_provider = GEMINI_FLASH"
    and t: "user_tier = ''premium''"
    and c: "confidence r1 < 0.7"
    and a: "fst (analyze_meal self image_url user_tier force_provider w) = Inr answer"
  shows "metadata_field ''cost_usd'' answer = Some (PFloat (Fin (cost_usd r2)))
       \<and> metadata_field ''tokens_used'' answer = Some (PInt (tokens_used r2))
       \<and> fst (meal_answer r2 w2) = Inr answer"
proof -
  from c have c': "confidence r1 < CONFIDENCE_THRESHOLD"
    by (simp add: CONFIDENCE_THRESHOLD_def)
  from meal_escalates [OF g e s c' t] a have "fst (meal_answer r2 w2) = Inr answer"
    by simp
  then show ?thesis
    using meal_answer_fields by simp
qed

text \<open>
  On the stub analyzer the Gemini call costs 0.0001 for 100 tokens and the GPT-4 call 0.02
  for 700; the answer shows the latter.
\<close>

theorem escalated_cost_is_second_call_witness:
  "cost_usd (fst (analyze_with_gemini (stub_analyzer 0.45 0.92) ''meal.jpg'' demo_world)) = 0.0001
   \<and> tokens_used (fst (analyze_with_gemini (stub_analyzer 0.45 0.92) ''meal.jpg'' demo_world)) = 100
   \<and> answer_field ''cost_usd''
       (fst (analyze_meal (stub_analyzer 0.45 0.92) ''meal.jpg'' ''premium''
               (Some GEMINI_FLASH) demo_world))
     = Some (PFloat (Fin 0.02))
   \<and> answer_field ''tokens_used''
       (fst (analyze_meal (stub_analyzer 0.45 0.92) ''meal.jpg'' ''premium''
               (Some GEMINI_FLASH) demo_world))
     = Some (PInt 700)"
proof -
  have run: "fst (analyze_meal (stub_analyzer 0.45 0.92) ''meal.jpg'' ''premium''
               (Some GEMINI_FLASH) demo_world)
        = fst (meal_answer (stub_envelope GPT4_VISION 0.92 ''{\"nutrition\": {\"calories\": 520}}'')
                 demo_world)"
    using meal_escalates [OF stub_gemini_run [of "0.45" "0.92" "''meal.jpg''" demo_world]
            stub_gpt4_run, where user_tier = "''premium''" and force_provider = "Some GEMINI_FLASH"]
    by (simp add: select_provider_def stub_envelope_def CONFIDENCE_THRESHOLD_def)
  note ans = run [unfolded stub_answer_520]
  have sel: "select_provider ''premium'' (Some GEMINI_FLASH) = GEMINI_FLASH"
    by (simp add: select_provider_def)
  have low: "confidence (stub_envelope GEMINI_FLASH 0.45 ''{\"nutrition\": {\"calories\": 300}}'') < 0.7"
    by (simp add: stub_envelope_def)
  note fields = escalated_cost_is_second_call [OF stub_gemini_run stub_gpt4_run sel refl low ans]
  show ?thesis
    unfolding ans answer_field_def
    using fields by (simp add: stub_gemini_run stub_envelope_def)
qed

section \<open>The parser on prose\<close>

lemma malformed_no_braces: "rx_search False rx_braces malformed_output = None"
  by code_simp

lemma malformed_not_json: "json_loads malformed_output = Inl JSONDecodeError"
  by code_simp

lemma malformed_falls_back:
  "parse_nutrition malformed_output = Inr (parse_natural_language malformed_output)"
  by (simp add: parse_nutrition_def parse_nutrition_try_def malformed_no_braces
      malformed_not_json bind_err_def)

lemma malformed_fallback_value:
  "parse_natural_language malformed_output =
     \<lparr> calories = Fin 0, protein_g = Fin 0, carbs_g = Fin 0, fat_g = Fin 0,
       fiber_g = None, sugar_g = None, sodium_mg = None, ingredients = [],
       portions = None, meal_type = None, parse_confidence = Fin 0.6,
       notes_text = Some ''Parsed from natural language response (fallback mode)'' \<rparr>"
  by code_simp

lemma labelled_value:
  "parse_nutrition labelled_output =
     Inr \<lparr> calories = Fin 450, protein_g = Fin 30, carbs_g = Fin 0, fat_g = Fin 0,
       fiber_g = None, sugar_g = None, sodium_mg = None, ingredients = [],
       portions = None, meal_type = None, parse_confidence = Fin 0.6,
       notes_text = Some ''Parsed from natural language response (fallback mode)'' \<rparr>"
  by code_simp

text \<open>
  Claim C7, as the code has it. The text
  \<^verbatim>\<open>This meal has about 450 calories and 30g protein, not much else detected.\<close>
  has no braces and is not JSON, so the parser falls back to the patterns. Each pattern
  wants the number after the nutrient's name, and here the numbers come before: the
  record has 0 calories, 0 protein and confidence 0.6. On a text that names the nutrient
  first, \<^verbatim>\<open>Calories: 450, protein: 30g, ...\<close>, the same fallback yields 450 and 30.
\<close>

theorem malformed_output_parse:
  "parse_nutrition malformed_output =
     Inr \<lparr> calories = Fin 0, protein_g = Fin 0, carbs_g = Fin 0, fat_g = Fin 0,
       fiber_g = None, sugar_g = None, sodium_mg = None, ingredients = [],
       portions = None, meal_type = None, parse_confidence = Fin 0.6,
       notes_text = Some ''Parsed from natural language response (fallback mode)'' \<rparr>
   \<and> parse_nutrition labelled_output =
     Inr \<lparr> calories = Fin 450, protein_g = Fin 30, carbs_g = Fin 0, fat_g = Fin 0,
       fiber_g = None, sugar_g = None, sodium_mg = None, ingredients = [],
       portions = None, meal_type = None, parse_confidence = Fin 0.6,
       notes_text = Some ''Parsed from natural language response (fallback mode)'' \<rparr>"
  by (simp add: malformed_falls_back malformed_fallback_value labelled_value)

text \<open>
  The claim as stated fails: on its text the parser falls back, and the calories and the
  protein of the record are 0, not 450 and 30.
\<close>

theorem malformed_output_not_450:
  "parse_nutrition malformed_output = Inr (parse_natural_language malformed_output)
   \<and> calories (parse_natural_language malformed_output) = Fin 0
   \<and> protein_g (parse_natural_language malformed_output) = Fin 0
   \<and> Fin 0 \<noteq> Fin 450 \<and> Fin 0 \<noteq> Fin 30"
  by (simp add: malformed_falls_back malformed_fallback_value)

section \<open>The parser is not total\<close>

text \<open>
  Claim C2 says that \<^verbatim>\<open>_parse_nutrition\<close> returns a record for every text and never
  raises. Its handler names \<^verbatim>\<open>JSONDecodeError\<close>, \<^verbatim>\<open>KeyError\<close> and \<^verbatim>\<open>ValueError\<close>
  only. On valid JSON whose \<^verbatim>\<open>calories\<close> is \<^verbatim>\<open>null\<close> the call \<^verbatim>\<open>float(None)\<close> raises
  \<^verbatim>\<open>TypeError\<close>; on valid JSON whose \<^verbatim>\<open>nutrition\<close> is \<^verbatim>\<open>null\<close>, or that is a bare
  number, the call of \<^verbatim>\<open>.get\<close> raises \<^verbatim>\<open>AttributeError\<close>. Neither is caught, and the
  exception leaves the function.
\<close>

theorem parse_nutrition_raises:
  \<open>parse_nutrition ''{"nutrition": {"calories": null}}'' = Inl TypeError
   \<and> parse_nutrition ''{"nutrition": null}'' = Inl AttributeError
   \<and> parse_nutrition ''42'' = Inl AttributeError\<close>
  by code_simp


section \<open>The metadata block\<close>

lemma meal_answer_keys:
  "fst (meal_answer r w) = Inr answer \<Longrightarrow> ai_metadata_keys answer = full_metadata_keys"
  by (auto simp: meal_answer_def ai_metadata_keys_def full_metadata_keys_def
      split: sum.splits prod.splits)

lemma analyze_meal_keys:
  assumes "fst (analyze_meal ma image_url user_tier force_provider w) = Inr answer"
  shows "ai_metadata_keys answer = full_metadata_keys"
proof -
  obtain r c w' where "route_meal ma image_url user_tier force_provider w = (r, c, w')"
    by (metis prod_cases3)
  from analyze_meal_parts [OF this] assms have "fst (meal_answer r w') = Inr answer"
    by simp
  then show ?thesis
    by (rule meal_answer_keys)
qed

lemma chat_keys:
  "ai_metadata_keys (fst (assistant_chat ca messages use_gpt4 w)) =
     [''provider'', ''model'', ''confidence'', ''cost_usd'', ''response_time_ms'', ''tokens_used'']"
  by (simp add: assistant_chat_def ai_metadata_keys_def Let_def split_beta)

lemma generate_recipe_keys:
  "ai_metadata_keys (fst (generate_recipe rg parse_recipe prompt use_gpt4 w)) =
     [''provider'', ''model'', ''confidence'', ''cost_usd'', ''response_time_ms'']"
  by (simp add: generate_recipe_def ai_metadata_keys_def split_beta)

lemma generate_from_photo_keys:
  "ai_metadata_keys (fst (generate_from_photo rg parse_recipe image_url preference w)) =
     [''provider'', ''cost_usd'', ''response_time_ms'']"
  by (simp add: generate_from_photo_def ai_metadata_keys_def split_beta)

lemma suggest_meal_keys:
  "ai_metadata_keys (fst (suggest_meal ca mt prompt use_gpt4 w)) =
     [''provider'', ''cost_usd'', ''response_time_ms'']"
  by (simp add: suggest_meal_def ai_metadata_keys_def Let_def split_beta)

lemma analyze_diet_trends_keys:
  "ai_metadata_keys (fst (analyze_diet_trends ca meals days prompt use_gpt4 w)) =
     [''provider'', ''cost_usd'', ''response_time_ms'']"
  by (simp add: analyze_diet_trends_def ai_metadata_keys_def Let_def split_beta)

text \<open>
  Claim C8, as the code has it. The block \<^verbatim>\<open>ai_metadata\<close> has the seven keys provider,
  model, confidence, cost_usd, response_time_ms, tokens_used and error in an answer of
  \<^verbatim>\<open>analyze_meal\<close>; the first six of them in an answer of \<^verbatim>\<open>chat\<close>; the first five in
  an answer of \<^verbatim>\<open>generate_recipe\<close>; and the three keys provider, cost_usd and
  response_time_ms in the answers of \<^verbatim>\<open>generate_from_photo\<close>, \<^verbatim>\<open>suggest_meal\<close> and
  \<^verbatim>\<open>analyze_diet_trends\<close>.
\<close>

theorem ai_metadata_blocks:
  "(\<forall>answer. fst (analyze_meal ma image_url user_tier force_provider w) = Inr answer
       \<longrightarrow> ai_metadata_keys answer =
           [''provider'', ''model'', ''confidence'', ''cost_usd'', ''response_time_ms'',
            ''tokens_used'', ''error''])
   \<and> ai_metadata_keys (fst (assistant_chat ca messages high_quality w)) =
       [''provider'', ''model'', ''confidence'', ''cost_usd'', ''response_time_ms'',
        ''tokens_used'']
   \<and> ai_metadata_keys (fst (generate_recipe rg parse_recipe prompt high_quality w)) =
       [''provider'', ''model'', ''confidence'', ''cost_usd'', ''response_time_ms'']
   \<and> ai_metadata_keys (fst (generate_from_photo rg parse_recipe image_url preference w)) =
       [''provider'', ''cost_usd'', ''response_time_ms'']
   \<and> ai_metadata_keys (fst (suggest_meal ca meal_kind prompt high_quality w)) =
       [''provider'', ''cost_usd'', ''response_time_ms'']
   \<and> ai_metadata_keys (fst (analyze_diet_trends ca recent_meals days prompt high_quality w)) =
       [''provider'', ''cost_usd'', ''response_time_ms'']"
  using analyze_meal_keys [of ma image_url user_tier force_provider w]
  by (simp add: chat_keys generate_recipe_keys generate_from_photo_keys suggest_meal_keys
      analyze_diet_trends_keys full_metadata_keys_def)

lemma stub_direct_answer:
  "fst (analyze_meal (stub_analyzer 0.45 0.92) ''meal.jpg'' ''premium'' None demo_world)
   = fst (meal_answer (stub_envelope GPT4_VISION 0.92 ''{\"nutrition\": {\"calories\": 520}}'')
            demo_world)"
  using meal_direct [OF stub_gpt4_run [of "0.45" "0.92" "''meal.jpg''" demo_world],
          where user_tier = "''premium''" and force_provider = None]
  by (simp add: select_provider_def)

text \<open>The blocks of a meal analysis and of a meal suggestion.\<close>

theorem ai_metadata_blocks_witness:
  "ai_metadata_keys
     (PDict
       [(''nutrition'', model_dump
           \<lparr> calories = Fin 520, protein_g = Fin 0, carbs_g = Fin 0, fat_g = Fin 0,
             fiber_g = None, sugar_g = None, sodium_mg = None, ingredients = [],
             portions = Some [], meal_type = None, parse_confidence = Fin 0.8,
             notes_text = Some [] \<rparr>),
        (''ai_metadata'',
           PDict [(''provider'', PStr ''gpt4-vision''),
                  (''model'', PStr ''stub''),
                  (''confidence'', PFloat (Fin 0.92)),
                  (''cost_usd'', PFloat (Fin 0.02)),
                  (''response_time_ms'', PInt 250),
                  (''tokens_used'', PInt 700),
                  (''error'', PNone)]),
        (''analyzed_at'', PStr (isoformat demo_world (clock demo_world (ticks demo_world))))])
   = [''provider'', ''model'', ''confidence'', ''cost_usd'', ''response_time_ms'',
      ''tokens_used'', ''error'']
   \<and> ai_metadata_keys
       (fst (suggest_meal failing_analyzer ''lunch'' ''Suggest a lunch'' False demo_world))
     = [''provider'', ''cost_usd'', ''response_time_ms'']"
proof -
  note ans = stub_direct_answer [unfolded stub_answer_520]
  note r = ai_metadata_blocks [where ma = "stub_analyzer 0.45 0.92" and image_url = "''meal.jpg''"
             and user_tier = "''premium''" and force_provider = None and w = demo_world
             and ca = failing_analyzer and meal_kind = "''lunch''"
             and prompt = "''Suggest a lunch''" and high_quality = False]
  from r have "\<forall>answer. fst (analyze_meal (stub_analyzer 0.45 0.92) ''meal.jpg'' ''premium''
                 None demo_world) = Inr answer
       \<longrightarrow> ai_metadata_keys answer =
           [''provider'', ''model'', ''confidence'', ''cost_usd'', ''response_time_ms'',
            ''tokens_used'', ''error'']"
    by (rule conjunct1)
  from this [rule_format, OF ans] r show ?thesis
    by blast
qed

text \<open>
  The claim as stated fails for a meal suggestion: its block has three keys and lacks
  model, confidence and tokens_used.
\<close>

theorem suggest_meal_block_is_partial:
  "ai_metadata_keys
     (fst (suggest_meal failing_analyzer ''lunch'' ''Suggest a lunch'' False demo_world))
   = [''provider'', ''cost_usd'', ''response_time_ms'']"
  by (simp add: suggest_meal_def ai_metadata_keys_def Let_def split_beta)

section \<open>The quick calorie estimate\<close>

lemma quick_json:
  \<open>json_loads ''{"calories": 410, "description": "turkey sandwich"}''
   = Inr (PDict [(''calories'', PInt 410), (''description'', PStr ''turkey sandwich'')])\<close>
  by code_simp

lemma json_loads_empty: "json_loads [] = Inl JSONDecodeError"
  by code_simp

lemma quick_parts:
  assumes "analyze_image (gemini self) image_url quick_estimate_prompt [] w = (r, w')"
  shows "fst (quick_calorie_estimate self image_url w) =
           (case json_loads (content r) of
              Inr (PDict d) \<Rightarrow>
                PDict [(''calories'', dict_get d ''calories'' (PInt 0)),
                       (''description'', dict_get d ''description'' (PStr ''Unknown meal'')),
                       (''cost_usd'', PFloat (Fin (cost_usd r))),
                       (''response_time_ms'', PInt (response_time_ms r))]
            | _ \<Rightarrow>
                PDict [(''calories'', PInt 0),
                       (''description'', PStr ''Could not analyze''),
                       (''error'', opt_str_val (error r))])"
  using assms
  by (auto simp: quick_calorie_estimate_def Let_def bind_err_def
      split: sum.splits pyval.splits)

text \<open>
  Claim C9, as the code has it. The quick estimate makes one call, to the Gemini adapter.
  When the content of the envelope decodes to a JSON object, the answer has the four
  fields calories, description, cost_usd and response_time_ms, the last two taken from
  the envelope; otherwise it has the three fields calories (0), description
  (\<^verbatim>\<open>Could not analyze\<close>) and error. In particular, on the content
  \<^verbatim>\<open>{"calories": 410, "description": "turkey sandwich"}\<close> the answer has calories 410,
  description \<^verbatim>\<open>turkey sandwich\<close> and the envelope's cost and response time.
\<close>

theorem quick_estimate_answer:
  assumes a: "analyze_image (gemini self) image_url quick_estimate_prompt [] w = (r, w')"
  shows \<open>(\<forall>d. json_loads (content r) = Inr (PDict d)
            \<longrightarrow> fst (quick_calorie_estimate self image_url w) =
                PDict [(''calories'', dict_get d ''calories'' (PInt 0)),
                       (''description'', dict_get d ''description'' (PStr ''Unknown meal'')),
                       (''cost_usd'', PFloat (Fin (cost_usd r))),
                       (''response_time_ms'', PInt (response_time_ms r))])
       \<and> ((\<forall>d. json_loads (content r) \<noteq> Inr (PDict d))
            \<longrightarrow> fst (quick_calorie_estimate self image_url w) =
                PDict [(''calories'', PInt 0),
                       (''description'', PStr ''Could not analyze''),
                       (''error'', opt_str_val (error r))])
       \<and> (content r = ''{"calories": 410, "description": "turkey sandwich"}''
            \<longrightarrow> fst (quick_calorie_estimate self image_url w) =
                PDict [(''calories'', PInt 410),
                       (''description'', PStr ''turkey sandwich''),
                       (''cost_usd'', PFloat (Fin (cost_usd r))),
                       (''response_time_ms'', PInt (response_time_ms r))])
       \<and> call_targets (quick_calorie_estimate self image_url w) = [GEMINI_FLASH]\<close>
proof (intro conjI allI impI)
  fix d
  assume "json_loads (content r) = Inr (PDict d)"
  then show "fst (quick_calorie_estimate self image_url w) =
                PDict [(''calories'', dict_get d ''calories'' (PInt 0)),
                       (''description'', dict_get d ''description'' (PStr ''Unknown meal'')),
                       (''cost_usd'', PFloat (Fin (cost_usd r))),
                       (''response_time_ms'', PInt (response_time_ms r))]"
    by (simp add: quick_parts [OF a])
next
  assume "\<forall>d. json_loads (content r) \<noteq> Inr (PDict d)"
  then show "fst (quick_calorie_estimate self image_url w) =
                PDict [(''calories'', PInt 0),
                       (''description'', PStr ''Could not analyze''),
                       (''error'', opt_str_val (error r))]"
    by (auto simp: quick_parts [OF a] split: sum.splits pyval.splits)
next
  assume \<open>content r = ''{"calories": 410, "description": "turkey sandwich"}''\<close>
  then show "fst (quick_calorie_estimate self image_url w) =
                PDict [(''calories'', PInt 410),
                       (''description'', PStr ''turkey sandwich''),
                       (''cost_usd'', PFloat (Fin (cost_usd r))),
                       (''response_time_ms'', PInt (response_time_ms r))]"
    by (simp add: quick_parts [OF a] quick_json dict_get_def)
next
  show "call_targets (quick_calorie_estimate self image_url w) = [GEMINI_FLASH]"
    by (simp add: quick_calorie_estimate_def call_targets_def Let_def split_beta)
qed

lemma pair_eta: "x = (fst x, snd x)"
  by simp

lemma failing_quick_envelope:
  "content (fst (analyze_image (gemini failing_analyzer) ''http://x/meal.jpg'' p [] w)) = []
   \<and> error (fst (analyze_image (gemini failing_analyzer) ''http://x/meal.jpg'' p [] w))
     = Some ''rate limit''"
  by (simp add: failing_analyzer_def MealAnalyzer_init_def gemini_object_def
      gemini_analyze_image_def gemini_image_bytes_def failing_gemini_def
      failure_envelope_content failure_envelope_fields split_beta)

text \<open>The mocked reply of the scenario, and a provider that refuses the request.\<close>

theorem quick_estimate_answer_witness:
  \<open>fst (quick_calorie_estimate mock_quick_analyzer ''meal.jpg'' demo_world) =
     PDict [(''calories'', PInt 410),
            (''description'', PStr ''turkey sandwich''),
            (''cost_usd'', PFloat (Fin 0.0001)),
            (''response_time_ms'', PInt 250)]
   \<and> fst (quick_calorie_estimate failing_analyzer ''http://x/meal.jpg'' demo_world) =
     PDict [(''calories'', PInt 0),
            (''description'', PStr ''Could not analyze''),
            (''error'', PStr ''rate limit'')]\<close>
proof -
  have m: \<open>analyze_image (gemini mock_quick_analyzer) ''meal.jpg'' quick_estimate_prompt []
             demo_world
           = (stub_envelope GEMINI_FLASH 0.8
                ''{"calories": 410, "description": "turkey sandwich"}'', demo_world)\<close>
    by (simp add: mock_quick_analyzer_def stub_service_def)
  have 1: \<open>fst (quick_calorie_estimate mock_quick_analyzer ''meal.jpg'' demo_world) =
     PDict [(''calories'', PInt 410),
            (''description'', PStr ''turkey sandwich''),
            (''cost_usd'', PFloat (Fin 0.0001)),
            (''response_time_ms'', PInt 250)]\<close>
    using quick_estimate_answer [OF m] by (simp add: stub_envelope_def)
  note f = failing_quick_envelope [of quick_estimate_prompt demo_world]
  have 2: "fst (quick_calorie_estimate failing_analyzer ''http://x/meal.jpg'' demo_world) =
     PDict [(''calories'', PInt 0),
            (''description'', PStr ''Could not analyze''),
            (''error'', PStr ''rate limit'')]"
    using quick_estimate_answer [OF pair_eta, where self = failing_analyzer
            and image_url = "''http://x/meal.jpg''" and w = demo_world]
    by (simp add: f json_loads_empty)
  show ?thesis
    using 1 2 by simp
qed

text \<open>
  The claim as stated fails when the provider refuses the request: the answer has no
  cost_usd and no response_time_ms.
\<close>

theorem quick_estimate_without_cost:
  "dict_keys (fst (quick_calorie_estimate failing_analyzer ''http://x/meal.jpg'' demo_world))
   = [''calories'', ''description'', ''error'']"
  using quick_parts [OF pair_eta, where self = failing_analyzer
          and image_url = "''http://x/meal.jpg''" and w = demo_world]
    failing_quick_envelope [of quick_estimate_prompt demo_world]
  by (simp add: json_loads_empty dict_keys_def)

end
